theory Spec2Isabelle
  imports Main "HOL-Library.AList"
begin

section \<open>Python values used by the two scripts\<close>

text \<open>
  The repository holds two scripts, \<^verbatim>\<open>create_github_repos.py\<close> (Pipeline A: one
  Client and one Designer repository per team, push access for the team's members) and
  \<^verbatim>\<open>grant_read_access.py\<close> (Pipeline B: read access on existing repositories). Each
  parses a spreadsheet row by row and then drives the GitHub API.

  A Python \<^verbatim>\<open>str\<close> is modelled as an Isabelle \<^typ>\<open>string\<close>; a character stands for
  the code point of the same number (U+0000 to U+00FF). Spreadsheet cells are the values
  \<^verbatim>\<open>row.get\<close> can return: \<^verbatim>\<open>None\<close> for a column the sheet does not have, the
  float \<^verbatim>\<open>nan\<close> that pandas puts in an empty cell, a text or an integer. Cells of other
  types (floats other than \<^verbatim>\<open>nan\<close>, dates, booleans) are outside the model.
\<close>

datatype pyval = PyNone | PyNaN | PyStr string | PyInt int

datatype py_error = KeyError | FileNotFoundError | OtherError

text \<open>\<^verbatim>\<open>str.isspace\<close> on one character, which is also what \<^verbatim>\<open>str.strip()\<close> removes
  and what \<^verbatim>\<open>\s\<close> matches in a \<^verbatim>\<open>str\<close> pattern.\<close>

definition isspace :: "char \<Rightarrow> bool" where
  "isspace c \<longleftrightarrow>
     (let n = (of_char c :: nat)
      in (9 \<le> n \<and> n \<le> 13) \<or> (28 \<le> n \<and> n \<le> 32) \<or> n = 133 \<or> n = 160)"

text \<open>What \<^verbatim>\<open>\d\<close> matches: the decimal digits.\<close>

definition isdigit :: "char \<Rightarrow> bool" where
  "isdigit c \<longleftrightarrow> (let n = (of_char c :: nat) in 48 \<le> n \<and> n \<le> 57)"

text \<open>\<^verbatim>\<open>str.lower()\<close>, character by character.\<close>

definition lower_char :: "char \<Rightarrow> char" where
  "lower_char c =
     (let n = (of_char c :: nat)
      in if (65 \<le> n \<and> n \<le> 90) \<or> (192 \<le> n \<and> n \<le> 222 \<and> n \<noteq> 215)
         then char_of (n + 32) else c)"

definition lower :: "string \<Rightarrow> string" where
  "lower s = map lower_char s"

text \<open>\<^verbatim>\<open>s.strip()\<close>: whitespace removed at both ends.\<close>

definition strip :: "string \<Rightarrow> string" where
  "strip s = rev (dropWhile isspace (rev (dropWhile isspace s)))"

text \<open>\<^verbatim>\<open>s.replace(c, '')\<close> for a one-character \<^verbatim>\<open>c\<close>: every occurrence removed.\<close>

definition remove_char :: "char \<Rightarrow> string \<Rightarrow> string" where
  "remove_char c s = filter (\<lambda>d. d \<noteq> c) s"

text \<open>\<^verbatim>\<open>p in s\<close> for strings: \<open>p\<close> occurs in \<open>s\<close> as a contiguous piece.\<close>

fun is_substring :: "string \<Rightarrow> string \<Rightarrow> bool" where
  "is_substring p [] = (p = [])"
| "is_substring p (c # cs) = (take (length p) (c # cs) = p \<or> is_substring p cs)"

text \<open>\<^verbatim>\<open>str(n)\<close> and \<^verbatim>\<open>int(s)\<close> on decimal digits. \<^verbatim>\<open>int\<close> is the
  mathematical conversion: the interpreter's configurable limit on the number of digits
  of a literal it converts is not part of the model.\<close>

definition digit_char :: "nat \<Rightarrow> char" where
  "digit_char d = char_of (48 + d)"

fun str_nat :: "nat \<Rightarrow> string" where
  "str_nat n = (if n < 10 then [digit_char n] else str_nat (n div 10) @ [digit_char (n mod 10)])"

declare str_nat.simps [simp del]

definition str_int :: "int \<Rightarrow> string" where
  "str_int i = (if i < 0 then CHR ''-'' # str_nat (nat (- i)) else str_nat (nat i))"

definition digit_val :: "char \<Rightarrow> int" where
  "digit_val c = int (of_char c) - 48"

definition py_int :: "string \<Rightarrow> int" where
  "py_int ds = foldl (\<lambda>acc c. 10 * acc + digit_val c) 0 ds"

text \<open>\<^verbatim>\<open>str(v)\<close> for a cell; the scripts call it only on cells that are not missing.\<close>

fun py_str :: "pyval \<Rightarrow> string" where
  "py_str (PyStr s) = s"
| "py_str (PyInt i) = str_int i"
| "py_str PyNaN = ''nan''"
| "py_str PyNone = ''None''"

text \<open>Truth value of a cell in \<^verbatim>\<open>a or b\<close>: \<^verbatim>\<open>None\<close>, the empty text and \<open>0\<close> are
  false; \<^verbatim>\<open>nan\<close> is a non-zero float and therefore true.\<close>

fun truthy :: "pyval \<Rightarrow> bool" where
  "truthy PyNone = False"
| "truthy PyNaN = True"
| "truthy (PyStr s) = (s \<noteq> [])"
| "truthy (PyInt i) = (i \<noteq> 0)"

definition py_or :: "pyval \<Rightarrow> pyval \<Rightarrow> pyval" where
  "py_or a b = (if truthy a then a else b)"

text \<open>\<^verbatim>\<open>pd.isna\<close> on a scalar.\<close>

fun isna :: "pyval \<Rightarrow> bool" where
  "isna PyNone = True"
| "isna PyNaN = True"
| "isna (PyStr s) = False"
| "isna (PyInt i) = False"

text \<open>A row of the data frame: column name and cell. \<^verbatim>\<open>row.get(name)\<close> is \<^verbatim>\<open>None\<close>
  when the sheet has no such column.\<close>

type_synonym row = "(string \<times> pyval) list"

definition row_get :: "row \<Rightarrow> string \<Rightarrow> pyval" where
  "row_get r name = (case map_of r name of None \<Rightarrow> PyNone | Some v \<Rightarrow> v)"

text \<open>A Python \<^verbatim>\<open>dict\<close> keeps its keys in insertion order: an association list with
  \<^const>\<open>AList.update\<close> (replace in place, or add at the end) and \<^const>\<open>map_of\<close>.
  \<^verbatim>\<open>d[k].append(x)\<close> raises \<^verbatim>\<open>KeyError\<close> when \<open>k\<close> is not a key.\<close>

definition dict_append :: "('k \<times> 'v list) list \<Rightarrow> 'k \<Rightarrow> 'v \<Rightarrow> py_error + ('k \<times> 'v list) list" where
  "dict_append d k x =
     (case map_of d k of
        None \<Rightarrow> Inl KeyError
      | Some l \<Rightarrow> Inr (AList.update k (l @ [x]) d))"

section \<open>Pipeline A: the team roster parser\<close>

text \<open>
  \<^verbatim>\<open>re.search(r'team\s*(\d+)', team_str, re.IGNORECASE)\<close>, returning group 1 of the
  match. \<open>match_team_here\<close> tries the pattern at the start of the text: the four letters
  in either case, the longest run of whitespace, then the longest run of digits, which
  must not be empty (whitespace and digits are disjoint, so backtracking into the
  whitespace never finds a match the greedy reading misses). \<open>re_search_team\<close> tries
  every start position from the left, as \<^verbatim>\<open>re.search\<close> does.
\<close>

definition match_team_here :: "string \<Rightarrow> string option" where
  "match_team_here s =
     (if lower (take 4 s) = ''team''
      then (let ds = takeWhile isdigit (dropWhile isspace (drop 4 s))
            in if ds \<noteq> [] then Some ds else None)
      else None)"

fun re_search_team :: "string \<Rightarrow> string option" where
  "re_search_team [] = None"
| "re_search_team (c # cs) =
     (case match_team_here (c # cs) of
        Some ds \<Rightarrow> Some ds
      | None \<Rightarrow> re_search_team cs)"

text \<open>Lines 39 and 40: the cell of the first alias whose value is true, else the last.\<close>

definition team_cell :: "row \<Rightarrow> pyval" where
  "team_cell r = py_or (py_or (row_get r ''Team'') (row_get r ''team'')) (row_get r ''Unnamed: 0'')"

definition github_id_cell :: "row \<Rightarrow> pyval" where
  "github_id_cell r =
     py_or (py_or (row_get r ''GITHUB ID'') (row_get r ''GitHub ID'')) (row_get r ''github_id'')"

text \<open>Lines 43 to 50: the new value of \<^verbatim>\<open>current_team\<close>.\<close>

definition update_current_team :: "int option \<Rightarrow> pyval \<Rightarrow> int option" where
  "update_current_team current_team team =
     (if \<not> isna team then
        (let team_str = strip (py_str team)
         in if is_substring ''team'' (lower team_str) then
              (case re_search_team team_str of
                 Some ds \<Rightarrow> Some (py_int ds)
               | None \<Rightarrow> current_team)
            else current_team)
      else current_team)"

text \<open>\<^verbatim>\<open>if current_team\<close>: \<^verbatim>\<open>None\<close> and \<open>0\<close> are false.\<close>

fun team_truthy :: "int option \<Rightarrow> bool" where
  "team_truthy None = False"
| "team_truthy (Some t) = (t \<noteq> 0)"

text \<open>Line 60: \<^verbatim>\<open>github_id_str.replace('@', '').replace(' ', '')\<close>.\<close>

definition clean_github_id :: "string \<Rightarrow> string" where
  "clean_github_id github_id_str = remove_char CHR '' '' (remove_char CHR ''@'' github_id_str)"

type_synonym teams = "(int \<times> string list) list"

text \<open>Lines 53 to 61: the member of the row goes to the current team's list.\<close>

definition add_github_id :: "teams \<Rightarrow> int option \<Rightarrow> pyval \<Rightarrow> py_error + teams" where
  "add_github_id teams current_team github_id =
     (case current_team of
        None \<Rightarrow> Inr teams
      | Some t \<Rightarrow>
          if team_truthy current_team \<and> \<not> isna github_id then
            (let github_id_str = strip (py_str github_id)
             in if github_id_str \<noteq> [] \<and> lower github_id_str \<noteq> ''nan'' then
                  (let teams1 = (if map_of teams t = None then AList.update t [] teams else teams)
                   in dict_append teams1 t (clean_github_id github_id_str))
                else Inr teams)
          else Inr teams)"

text \<open>One turn of the loop of line 37, on the pair of the dictionary and
  \<^verbatim>\<open>current_team\<close>.\<close>

definition team_row_step :: "teams \<times> int option \<Rightarrow> row \<Rightarrow> py_error + teams \<times> int option" where
  "team_row_step st r =
     (let current_team = update_current_team (snd st) (team_cell r)
      in case add_github_id (fst st) current_team (github_id_cell r) of
           Inl e \<Rightarrow> Inl e
         | Inr teams \<Rightarrow> Inr (teams, current_team))"

fun team_rows :: "teams \<times> int option \<Rightarrow> row list \<Rightarrow> py_error + teams \<times> int option" where
  "team_rows st [] = Inr st"
| "team_rows st (r # rs) =
     (case team_row_step st r of
        Inl e \<Rightarrow> Inl e
      | Inr st' \<Rightarrow> team_rows st' rs)"

text \<open>The function itself: the argument is what \<^verbatim>\<open>pd.read_excel\<close> gave, an exception
  or the rows; any exception is re-raised to the caller.\<close>

definition read_teams_from_excel :: "py_error + row list \<Rightarrow> py_error + teams" where
  "read_teams_from_excel df =
     (case df of
        Inl e \<Rightarrow> Inl e
      | Inr rows \<Rightarrow>
          (case team_rows ([], None) rows of
             Inl e \<Rightarrow> Inl e
           | Inr st \<Rightarrow> Inr (fst st)))"

section \<open>Pipeline B: the access list parser\<close>

text \<open>Lines 40 and 41 of \<^verbatim>\<open>grant_read_access.py\<close>: six aliases for each column.\<close>

definition repo_cell :: "row \<Rightarrow> pyval" where
  "repo_cell r =
     py_or (py_or (py_or (py_or (py_or (row_get r ''Repository'') (row_get r ''repository''))
       (row_get r ''Repo'')) (row_get r ''repo'')) (row_get r ''Repo Name'')) (row_get r ''repo name'')"

definition access_github_id_cell :: "row \<Rightarrow> pyval" where
  "access_github_id_cell r =
     py_or (py_or (py_or (py_or (py_or (row_get r ''GITHUB ID'') (row_get r ''GitHub ID''))
       (row_get r ''github_id'')) (row_get r ''github id'')) (row_get r ''GithubID'')) (row_get r ''githubid'')"

type_synonym repo_access = "(string \<times> string list) list"

text \<open>Lines 44 to 49: a usable repository name becomes \<^verbatim>\<open>current_repo\<close> and gets an
  empty list unless it has one.\<close>

definition update_current_repo ::
  "repo_access \<times> string option \<Rightarrow> pyval \<Rightarrow> repo_access \<times> string option" where
  "update_current_repo st repo =
     (if \<not> isna repo then
        (let repo_str = strip (py_str repo)
         in if repo_str \<noteq> [] \<and> lower repo_str \<noteq> ''nan'' then
              (if map_of (fst st) repo_str = None then AList.update repo_str [] (fst st) else fst st,
               Some repo_str)
            else st)
      else st)"

text \<open>\<^verbatim>\<open>if current_repo\<close>: \<^verbatim>\<open>None\<close> and the empty text are false.\<close>

fun repo_truthy :: "string option \<Rightarrow> bool" where
  "repo_truthy None = False"
| "repo_truthy (Some c) = (c \<noteq> [])"

text \<open>Lines 52 to 59: the member is appended unless the list already has it. Both
  \<^verbatim>\<open>repo_access[current_repo]\<close> raise \<^verbatim>\<open>KeyError\<close> on a name that is not a key.\<close>

definition add_access_github_id :: "repo_access \<Rightarrow> string option \<Rightarrow> pyval \<Rightarrow> py_error + repo_access" where
  "add_access_github_id repo_access current_repo github_id =
     (case current_repo of
        None \<Rightarrow> Inr repo_access
      | Some c \<Rightarrow>
          if repo_truthy current_repo \<and> \<not> isna github_id then
            (let github_id_str = strip (py_str github_id)
             in if github_id_str \<noteq> [] \<and> lower github_id_str \<noteq> ''nan'' then
                  (let github_id_clean = clean_github_id github_id_str
                   in case map_of repo_access c of
                        None \<Rightarrow> Inl KeyError
                      | Some l \<Rightarrow>
                          if github_id_clean \<notin> set l
                          then dict_append repo_access c github_id_clean
                          else Inr repo_access)
                else Inr repo_access)
          else Inr repo_access)"

definition access_row_step ::
  "repo_access \<times> string option \<Rightarrow> row \<Rightarrow> py_error + repo_access \<times> string option" where
  "access_row_step st r =
     (let st1 = update_current_repo st (repo_cell r)
      in case add_access_github_id (fst st1) (snd st1) (access_github_id_cell r) of
           Inl e \<Rightarrow> Inl e
         | Inr repo_access \<Rightarrow> Inr (repo_access, snd st1))"

fun access_rows ::
  "repo_access \<times> string option \<Rightarrow> row list \<Rightarrow> py_error + repo_access \<times> string option" where
  "access_rows st [] = Inr st"
| "access_rows st (r # rs) =
     (case access_row_step st r of
        Inl e \<Rightarrow> Inl e
      | Inr st' \<Rightarrow> access_rows st' rs)"

definition read_access_list_from_excel :: "py_error + row list \<Rightarrow> py_error + repo_access" where
  "read_access_list_from_excel df =
     (case df of
        Inl e \<Rightarrow> Inl e
      | Inr rows \<Rightarrow>
          (case access_rows ([], None) rows of
             Inl e \<Rightarrow> Inl e
           | Inr st \<Rightarrow> Inr (fst st)))"

section \<open>The platform, the calls made to it and the lines printed\<close>

text \<open>
  The GitHub client library is not part of the repository. A \<^verbatim>\<open>GithubException\<close> is
  what the scripts read of it: the HTTP status, and the rest, which only gets printed.
  The organisation is a record of four answer functions, one for each method the scripts
  call; the first argument of each is the list of calls made so far in the run, so that
  an answer may depend on everything done before (a repository exists after it was
  created, say). \<open>'r\<close> is the type of repository handles.
\<close>

record github_exception =
  status :: int
  data :: string

datatype 'r call =
    Create_repo string string bool bool
  | Get_repo string
  | Add_to_collaborators 'r string string
  | Get_collaborator_permission 'r string

record 'r github =
  create_repo :: "'r call list \<Rightarrow> string \<Rightarrow> string \<Rightarrow> bool \<Rightarrow> bool \<Rightarrow> github_exception + 'r"
  get_repo :: "'r call list \<Rightarrow> string \<Rightarrow> github_exception + 'r"
  add_to_collaborators :: "'r call list \<Rightarrow> 'r \<Rightarrow> string \<Rightarrow> string \<Rightarrow> github_exception + unit"
  get_collaborator_permission :: "'r call list \<Rightarrow> 'r \<Rightarrow> string \<Rightarrow> github_exception + string"

text \<open>One constructor for each \<^verbatim>\<open>print\<close> of the provisioning code, with the values
  its f-string interpolates.\<close>

datatype message =
    Created_repository string
  | Repository_exists_fetching string
  | Error_creating string github_exception
  | Added_with_access string string
  | Error_adding string github_exception
  | Team_not_found int
  | Processing_team int nat
  | Already_has_access string string
  | Granted_read_access string
  | User_not_found string
  | Error_granting string github_exception
  | Processing_repository string
  | Repository_found
  | Repository_not_found string
  | Error_accessing_repository github_exception
  | Granted_all nat
  | Granted_some nat nat
  | Summary_total nat
  | Summary_successful nat
  | Summary_failed nat
  | Failed_repositories
  | Failed_repository string

text \<open>What a run has done so far. The pauses (\<^verbatim>\<open>time.sleep\<close>) leave no trace here.\<close>

record 'r run =
  calls :: "'r call list"
  printed :: "message list"

definition called :: "'r call \<Rightarrow> 'r run \<Rightarrow> 'r run" where
  "called c s = s\<lparr>calls := calls s @ [c]\<rparr>"

definition print :: "message \<Rightarrow> 'r run \<Rightarrow> 'r run" where
  "print m s = s\<lparr>printed := printed s @ [m]\<rparr>"

section \<open>Pipeline A: repositories and push access\<close>

text \<open>Lines 68 to 88. The result is the handle, \<^verbatim>\<open>None\<close>, or the exception that
  leaves the function: \<^verbatim>\<open>org.get_repo\<close> is called inside the handler, where nothing
  catches what it raises.\<close>

definition create_repository ::
  "'r github \<Rightarrow> 'r run \<Rightarrow> string \<Rightarrow> string \<Rightarrow> (github_exception + 'r option) \<times> 'r run" where
  "create_repository org s repo_name description =
     (let s1 = called (Create_repo repo_name description True True) s
      in case create_repo org (calls s) repo_name description True True of
           Inr repo \<Rightarrow> (Inr (Some repo), print (Created_repository repo_name) s1)
         | Inl e \<Rightarrow>
             if status e = 422 then
               (let s2 = print (Repository_exists_fetching repo_name) s1;
                    s3 = called (Get_repo repo_name) s2
                in case get_repo org (calls s2) repo_name of
                     Inr repo \<Rightarrow> (Inr (Some repo), s3)
                   | Inl e' \<Rightarrow> (Inl e', s3))
             else (Inr None, print (Error_creating repo_name e) s1))"

text \<open>Lines 90 to 102.\<close>

definition add_collaborator :: "'r github \<Rightarrow> 'r run \<Rightarrow> 'r \<Rightarrow> string \<Rightarrow> string \<Rightarrow> bool \<times> 'r run" where
  "add_collaborator org s repo github_username permission =
     (let s1 = called (Add_to_collaborators repo github_username permission) s
      in case add_to_collaborators org (calls s) repo github_username permission of
           Inr u \<Rightarrow> (True, print (Added_with_access github_username permission) s1)
         | Inl e \<Rightarrow> (False, print (Error_adding github_username e) s1))"

text \<open>Lines 161 and 162 (and 172, 173): \<^verbatim>\<open>for member in team_members\<close>.\<close>

fun add_members :: "'r github \<Rightarrow> 'r run \<Rightarrow> 'r \<Rightarrow> string list \<Rightarrow> 'r run" where
  "add_members org s repo [] = s"
| "add_members org s repo (member # members) =
     add_members org (snd (add_collaborator org s repo member ''push'')) repo members"

text \<open>Lines 160 to 162: \<^verbatim>\<open>if client_repo:\<close> then the member loop.\<close>

definition add_members_if :: "'r github \<Rightarrow> 'r run \<Rightarrow> 'r option \<Rightarrow> string list \<Rightarrow> 'r run" where
  "add_members_if org s repo team_members =
     (case repo of None \<Rightarrow> s | Some r \<Rightarrow> add_members org s r team_members)"

text \<open>Lines 154, 157, 165 and 168: the names and descriptions of a team's repositories.\<close>

definition client_repo_name :: "int \<Rightarrow> string" where
  "client_repo_name team_num = ''Client'' @ str_int team_num"

definition client_description :: "int \<Rightarrow> string" where
  "client_description team_num = ''Client repository for Team '' @ str_int team_num"

definition designer_repo_name :: "int \<Rightarrow> string" where
  "designer_repo_name team_num = ''Designer'' @ str_int team_num"

definition designer_description :: "int \<Rightarrow> string" where
  "designer_description team_num = ''Designer repository for Team '' @ str_int team_num"

text \<open>Lines 145 to 175 of \<^verbatim>\<open>main\<close>, the loop over the team numbers. The first component
  of the result is the exception that ended the run, if one did.\<close>

fun main_teams ::
  "'r github \<Rightarrow> teams \<Rightarrow> 'r run \<Rightarrow> int list \<Rightarrow> github_exception option \<times> 'r run" where
  "main_teams org teams s [] = (None, s)"
| "main_teams org teams s (team_num # rest) =
     (case map_of teams team_num of
        None \<Rightarrow> main_teams org teams (print (Team_not_found team_num) s) rest
      | Some team_members \<Rightarrow>
          (let s1 = print (Processing_team team_num (length team_members)) s
           in case create_repository org s1 (client_repo_name team_num)
                     (client_description team_num) of
                (Inl e, s2) \<Rightarrow> (Some e, s2)
              | (Inr client_repo, s2) \<Rightarrow>
                  (let s3 = add_members_if org s2 client_repo team_members
                   in case create_repository org s3 (designer_repo_name team_num)
                             (designer_description team_num) of
                        (Inl e, s4) \<Rightarrow> (Some e, s4)
                      | (Inr designer_repo, s4) \<Rightarrow>
                          main_teams org teams
                            (add_members_if org s4 designer_repo team_members) rest)))"

text \<open>\<^verbatim>\<open>range(1, NUM_TEAMS + 1)\<close>, with the constant \<^verbatim>\<open>NUM_TEAMS\<close> as a parameter.\<close>

definition main_create :: "'r github \<Rightarrow> int \<Rightarrow> teams \<Rightarrow> 'r run \<Rightarrow> github_exception option \<times> 'r run" where
  "main_create org num_teams teams s = main_teams org teams s [1..num_teams]"

section \<open>Pipeline B: read access on existing repositories\<close>

text \<open>Lines 84 to 94: the call that adds the collaborator, and the outer handler.\<close>

definition add_read_collaborator :: "'r github \<Rightarrow> 'r run \<Rightarrow> 'r \<Rightarrow> string \<Rightarrow> bool \<times> 'r run" where
  "add_read_collaborator org s repo github_username =
     (let s1 = called (Add_to_collaborators repo github_username ''pull'') s
      in case add_to_collaborators org (calls s) repo github_username ''pull'' of
           Inr u \<Rightarrow> (True, print (Granted_read_access github_username) s1)
         | Inl e \<Rightarrow>
             (False,
              print (if status e = 404 then User_not_found github_username
                     else Error_granting github_username e) s1))"

text \<open>Lines 70 to 94. A failed permission query is passed over (line 82).\<close>

definition grant_read_access :: "'r github \<Rightarrow> 'r run \<Rightarrow> 'r \<Rightarrow> string \<Rightarrow> bool \<times> 'r run" where
  "grant_read_access org s repo github_username =
     (let s1 = called (Get_collaborator_permission repo github_username) s
      in case get_collaborator_permission org (calls s) repo github_username of
           Inr permission \<Rightarrow>
             if permission \<in> set [''admin'', ''write'', ''read'']
             then (True, print (Already_has_access github_username permission) s1)
             else add_read_collaborator org s1 repo github_username
         | Inl e \<Rightarrow> add_read_collaborator org s1 repo github_username)"

text \<open>Lines 163 to 166: the member loop and its counter.\<close>

fun grant_members :: "'r github \<Rightarrow> 'r \<Rightarrow> nat \<times> 'r run \<Rightarrow> string list \<Rightarrow> nat \<times> 'r run" where
  "grant_members org repo st [] = st"
| "grant_members org repo st (github_id # users) =
     (case grant_read_access org (snd st) repo github_id of
        (ok, s1) \<Rightarrow> grant_members org repo (if ok then fst st + 1 else fst st, s1) users)"

record 'r access_state =
  run :: "'r run"
  successful_repos :: nat
  failed_repos :: "string list"

text \<open>Lines 146 to 174, the body of the loop over \<^verbatim>\<open>repo_access.items()\<close>.\<close>

definition access_repo_step :: "'r github \<Rightarrow> 'r access_state \<Rightarrow> string \<times> string list \<Rightarrow> 'r access_state" where
  "access_repo_step org st item =
     (let repo_name = fst item; users = snd item;
          s1 = print (Processing_repository repo_name) (run st);
          s2 = called (Get_repo repo_name) s1
      in case get_repo org (calls s1) repo_name of
           Inl e \<Rightarrow>
             st\<lparr>run := print (if status e = 404 then Repository_not_found repo_name
                               else Error_accessing_repository e) s2,
                failed_repos := failed_repos st @ [repo_name]\<rparr>
         | Inr repo \<Rightarrow>
             (case grant_members org repo (0, print Repository_found s2) users of
                (success_count, s3) \<Rightarrow>
                  if success_count = length users
                  then st\<lparr>run := print (Granted_all (length users)) s3,
                          successful_repos := successful_repos st + 1\<rparr>
                  else st\<lparr>run := print (Granted_some success_count (length users)) s3\<rparr>))"

fun access_repos :: "'r github \<Rightarrow> 'r access_state \<Rightarrow> repo_access \<Rightarrow> 'r access_state" where
  "access_repos org st [] = st"
| "access_repos org st (item # items) = access_repos org (access_repo_step org st item) items"

text \<open>Lines 180 to 188: the figures of the summary and the failed repositories.\<close>

definition summary :: "nat \<Rightarrow> 'r access_state \<Rightarrow> message list" where
  "summary total_repos st =
     [Summary_total total_repos, Summary_successful (successful_repos st),
      Summary_failed (length (failed_repos st))]
     @ (if failed_repos st \<noteq> [] then Failed_repositories # map Failed_repository (failed_repos st)
        else [])"

text \<open>Lines 141 to 188 of \<^verbatim>\<open>main\<close>.\<close>

definition main_access :: "'r github \<Rightarrow> repo_access \<Rightarrow> 'r run \<Rightarrow> 'r access_state" where
  "main_access org repo_access s =
     (let total_repos = length repo_access;
          st = access_repos org \<lparr>run = s, successful_repos = 0, failed_repos = []\<rparr> repo_access
      in st\<lparr>run := (run st)\<lparr>printed := printed (run st) @ summary total_repos st\<rparr>\<rparr>)"

section \<open>Notions used to state the properties\<close>

text \<open>The identifier a member cell yields when it passes the tests of lines 53 to 60
  (54 to 57 in \<^verbatim>\<open>grant_read_access.py\<close>): present, not empty and not \<^verbatim>\<open>nan\<close> once
  stripped; then cleaned.\<close>

definition contributed_id :: "pyval \<Rightarrow> string option" where
  "contributed_id github_id =
     (if \<not> isna github_id then
        (let github_id_str = strip (py_str github_id)
         in if github_id_str \<noteq> [] \<and> lower github_id_str \<noteq> ''nan''
            then Some (clean_github_id github_id_str) else None)
      else None)"

text \<open>The group a cell names, if it names one: what the update makes of an unset
  current group.\<close>

definition named_team :: "pyval \<Rightarrow> int option" where
  "named_team team = update_current_team None team"

definition named_repo :: "pyval \<Rightarrow> string option" where
  "named_repo repo = snd (update_current_repo ([], None) repo)"

text \<open>The list a dictionary holds for a key, empty when the key is absent.\<close>

definition list_of :: "('k \<times> 'v list) list \<Rightarrow> 'k \<Rightarrow> 'v list" where
  "list_of d k = (case map_of d k of None \<Rightarrow> [] | Some l \<Rightarrow> l)"

text \<open>A row contributes a member to a group when the parser reaches the append with
  that current group and that cleaned identifier. \<open>team_contributions\<close> and
  \<open>access_contributions\<close> list the contributions of a sequence of rows in order.\<close>

definition team_contribution :: "int option \<Rightarrow> pyval \<Rightarrow> (int \<times> string) option" where
  "team_contribution current_team github_id =
     (case current_team of
        None \<Rightarrow> None
      | Some t \<Rightarrow> if t = 0 then None else map_option (Pair t) (contributed_id github_id))"

fun team_contributions :: "int option \<Rightarrow> row list \<Rightarrow> (int \<times> string) list" where
  "team_contributions current_team [] = []"
| "team_contributions current_team (r # rs) =
     (let current_team' = update_current_team current_team (team_cell r)
      in (case team_contribution current_team' (github_id_cell r) of
            None \<Rightarrow> []
          | Some p \<Rightarrow> [p]) @ team_contributions current_team' rs)"

definition access_contribution :: "string option \<Rightarrow> pyval \<Rightarrow> (string \<times> string) option" where
  "access_contribution current_repo github_id =
     (case current_repo of
        None \<Rightarrow> None
      | Some c \<Rightarrow> if c = [] then None else map_option (Pair c) (contributed_id github_id))"

fun access_contributions :: "string option \<Rightarrow> row list \<Rightarrow> (string \<times> string) list" where
  "access_contributions current_repo [] = []"
| "access_contributions current_repo (r # rs) =
     (let current_repo' = snd (update_current_repo ([], current_repo) (repo_cell r))
      in (case access_contribution current_repo' (access_github_id_cell r) of
            None \<Rightarrow> []
          | Some p \<Rightarrow> [p]) @ access_contributions current_repo' rs)"




text \<open>The state one turn of each parser's loop leaves when nothing is raised; the
  lemmas \<open>team_rows_eq\<close> and \<open>access_rows_eq\<close> below show that this is the only case.\<close>

definition team_step_result :: "teams \<times> int option \<Rightarrow> row \<Rightarrow> teams \<times> int option" where
  "team_step_result st r =
     (let current_team = update_current_team (snd st) (team_cell r)
      in (case team_contribution current_team (github_id_cell r) of
            None \<Rightarrow> fst st
          | Some p \<Rightarrow> AList.update (fst p) (list_of (fst st) (fst p) @ [snd p]) (fst st),
          current_team))"

definition access_step_result ::
  "repo_access \<times> string option \<Rightarrow> row \<Rightarrow> repo_access \<times> string option" where
  "access_step_result st r =
     (let st1 = update_current_repo st (repo_cell r)
      in (case access_contribution (snd st1) (access_github_id_cell r) of
            None \<Rightarrow> fst st1
          | Some p \<Rightarrow>
              if snd p \<in> set (list_of (fst st1) (fst p)) then fst st1
              else AList.update (fst p) (list_of (fst st1) (fst p) @ [snd p]) (fst st1),
          snd st1))"

text \<open>In every state the access list parser reaches, the current repository is a key
  of the dictionary.\<close>

definition current_repo_registered :: "repo_access \<times> string option \<Rightarrow> bool" where
  "current_repo_registered st \<longleftrightarrow> (case snd st of None \<Rightarrow> True | Some c \<Rightarrow> map_of (fst st) c \<noteq> None)"

text \<open>Kinds of calls and of printed lines, for counting them in a run.\<close>

fun is_create_repo :: "'r call \<Rightarrow> bool" where
  "is_create_repo (Create_repo name description private auto_init) = True"
| "is_create_repo c = False"

fun is_get_repo :: "'r call \<Rightarrow> bool" where
  "is_get_repo (Get_repo name) = True"
| "is_get_repo c = False"

fun is_permission_query :: "'r call \<Rightarrow> bool" where
  "is_permission_query (Get_collaborator_permission repo user) = True"
| "is_permission_query c = False"

fun is_granted_some :: "message \<Rightarrow> bool" where
  "is_granted_some (Granted_some k n) = True"
| "is_granted_some m = False"

text \<open>What the calls of \<open>grant_read_access\<close> return, one after the other, in the member
  loop of lines 163 to 166.\<close>

fun grant_results :: "'r github \<Rightarrow> 'r \<Rightarrow> 'r run \<Rightarrow> string list \<Rightarrow> bool list" where
  "grant_results org repo s [] = []"
| "grant_results org repo s (github_id # users) =
     (case grant_read_access org s repo github_id of
        (ok, s1) \<Rightarrow> ok # grant_results org repo s1 users)"

text \<open>Platforms for the examples: repository handles are the names, the answers depend
  on the repository name (creation, lookup) or on the user name (grant, permission
  query) only.\<close>

definition example_platform ::
  "(string \<Rightarrow> github_exception option) \<Rightarrow> (string \<Rightarrow> github_exception option) \<Rightarrow>
   (string \<Rightarrow> github_exception option) \<Rightarrow> (string \<Rightarrow> github_exception + string) \<Rightarrow> string github" where
  "example_platform create_fails get_fails add_fails permission =
     \<lparr>create_repo = (\<lambda>h name description private auto_init.
          case create_fails name of None \<Rightarrow> Inr name | Some e \<Rightarrow> Inl e),
      get_repo = (\<lambda>h name. case get_fails name of None \<Rightarrow> Inr name | Some e \<Rightarrow> Inl e),
      add_to_collaborators = (\<lambda>h repo user perm.
          case add_fails user of None \<Rightarrow> Inr () | Some e \<Rightarrow> Inl e),
      get_collaborator_permission = (\<lambda>h repo user. permission user)\<rparr>"

definition start :: "'r run" where
  "start = \<lparr>calls = [], printed = []\<rparr>"

section \<open>The parsers never raise\<close>

lemma update_current_team_named:
  "update_current_team current_team team =
     (case named_team team of None \<Rightarrow> current_team | Some t \<Rightarrow> Some t)"
  by (simp add: update_current_team_def named_team_def Let_def split: option.splits)

lemma update_current_repo_named:
  "update_current_repo st repo =
     (case named_repo repo of
        None \<Rightarrow> st
      | Some g \<Rightarrow> (if map_of (fst st) g = None then AList.update g [] (fst st) else fst st, Some g))"
  by (cases st) (simp add: update_current_repo_def named_repo_def Let_def)

lemma named_repo_nonempty: "named_repo repo = Some g \<Longrightarrow> g \<noteq> []"
  by (auto simp: update_current_repo_def named_repo_def Let_def split: if_splits)

lemma add_github_id_eq:
  "add_github_id teams current_team github_id =
     Inr (case team_contribution current_team github_id of
            None \<Rightarrow> teams
          | Some p \<Rightarrow> AList.update (fst p) (list_of teams (fst p) @ [snd p]) teams)"
  by (auto simp: add_github_id_def team_contribution_def contributed_id_def list_of_def Let_def
      dict_append_def AList.update_conv' split: option.splits)

lemma team_row_step_eq: "team_row_step st r = Inr (team_step_result st r)"
  by (simp add: team_row_step_def team_step_result_def Let_def add_github_id_eq)

lemma team_rows_eq: "team_rows st rows = Inr (foldl team_step_result st rows)"
  by (induction rows arbitrary: st) (simp_all add: team_row_step_eq)

lemma read_teams_from_excel_eq:
  "read_teams_from_excel (Inr rows) = Inr (fst (foldl team_step_result ([], None) rows))"
  by (simp add: read_teams_from_excel_def team_rows_eq)

lemma add_access_github_id_eq:
  "current_repo_registered (repo_access, current_repo) \<Longrightarrow>
   add_access_github_id repo_access current_repo github_id =
     Inr (case access_contribution current_repo github_id of
            None \<Rightarrow> repo_access
          | Some p \<Rightarrow>
              if snd p \<in> set (list_of repo_access (fst p)) then repo_access
              else AList.update (fst p) (list_of repo_access (fst p) @ [snd p]) repo_access)"
  by (auto simp: add_access_github_id_def access_contribution_def contributed_id_def list_of_def
      Let_def dict_append_def current_repo_registered_def split: option.splits)

lemma update_current_repo_registered:
  "current_repo_registered st \<Longrightarrow> current_repo_registered (update_current_repo st repo)"
  by (auto simp: update_current_repo_named current_repo_registered_def AList.update_conv'
      split: option.splits)

lemma access_row_step_eq:
  "current_repo_registered st \<Longrightarrow> access_row_step st r = Inr (access_step_result st r)"
proof -
  assume "current_repo_registered st"
  then have "current_repo_registered (update_current_repo st (repo_cell r))"
    by (rule update_current_repo_registered)
  then have "current_repo_registered
     (fst (update_current_repo st (repo_cell r)), snd (update_current_repo st (repo_cell r)))"
    by simp
  then show ?thesis
    by (simp add: access_row_step_def access_step_result_def Let_def add_access_github_id_eq)
qed

lemma access_step_result_registered:
  "current_repo_registered st \<Longrightarrow> current_repo_registered (access_step_result st r)"
proof -
  assume "current_repo_registered st"
  then have "current_repo_registered (update_current_repo st (repo_cell r))"
    by (rule update_current_repo_registered)
  then show ?thesis
    by (auto simp: access_step_result_def Let_def current_repo_registered_def AList.update_conv'
        split: option.splits)
qed

lemma access_rows_eq:
  "current_repo_registered st \<Longrightarrow> access_rows st rows = Inr (foldl access_step_result st rows)"
  by (induction rows arbitrary: st) (simp_all add: access_row_step_eq access_step_result_registered)

lemma read_access_list_from_excel_eq:
  "read_access_list_from_excel (Inr rows) = Inr (fst (foldl access_step_result ([], None) rows))"
  by (simp add: read_access_list_from_excel_def access_rows_eq current_repo_registered_def)

section \<open>Parsing: what reaches the dictionary\<close>

lemma list_of_update: "list_of (AList.update k v d) g = (if g = k then v else list_of d g)"
  by (simp add: list_of_def AList.update_conv')

lemma isna_contributed_id: "isna github_id \<Longrightarrow> contributed_id github_id = None"
  by (simp add: contributed_id_def)

lemma team_contribution_Some:
  "team_contribution current_team github_id = Some p \<longleftrightarrow>
     current_team = Some (fst p) \<and> fst p \<noteq> 0 \<and> contributed_id github_id = Some (snd p)"
  by (cases p) (auto simp: team_contribution_def split: option.splits)

lemma access_contribution_Some:
  "access_contribution current_repo github_id = Some p \<longleftrightarrow>
     current_repo = Some (fst p) \<and> fst p \<noteq> [] \<and> contributed_id github_id = Some (snd p)"
  by (cases p) (auto simp: access_contribution_def split: option.splits)

lemma team_step_result_unnamed:
  "named_team (team_cell r) = None \<Longrightarrow> team_step_result (teams, None) r = (teams, None)"
  by (simp add: team_step_result_def update_current_team_named team_contribution_def)

lemma team_fold_unnamed:
  "\<forall>r \<in> set pre. named_team (team_cell r) = None \<Longrightarrow>
   foldl team_step_result (teams, None) pre = (teams, None)"
  by (induction pre) (simp_all add: team_step_result_unnamed)

lemma access_step_result_unnamed:
  "named_repo (repo_cell r) = None \<Longrightarrow> access_step_result (ra, None) r = (ra, None)"
  by (simp add: access_step_result_def update_current_repo_named access_contribution_def)

lemma access_fold_unnamed:
  "\<forall>r \<in> set pre. named_repo (repo_cell r) = None \<Longrightarrow>
   foldl access_step_result (ra, None) pre = (ra, None)"
  by (induction pre) (simp_all add: access_step_result_unnamed)

lemma team_step_result_members:
  "m \<in> set (list_of (fst (team_step_result st r)) g) \<Longrightarrow>
   m \<in> set (list_of (fst st) g) \<or> contributed_id (github_id_cell r) = Some m"
  by (auto simp: team_step_result_def Let_def list_of_update team_contribution_Some
      split: option.splits if_splits)

lemma team_fold_members:
  "m \<in> set (list_of (fst (foldl team_step_result st rows)) g) \<Longrightarrow>
   m \<in> set (list_of (fst st) g) \<or> (\<exists>r \<in> set rows. contributed_id (github_id_cell r) = Some m)"
proof (induction rows arbitrary: st)
  case Nil
  then show ?case by simp
next
  case (Cons r rows)
  from Cons.prems have "m \<in> set (list_of (fst (foldl team_step_result (team_step_result st r) rows)) g)"
    by simp
  then have "m \<in> set (list_of (fst (team_step_result st r)) g)
      \<or> (\<exists>r \<in> set rows. contributed_id (github_id_cell r) = Some m)"
    by (rule Cons.IH)
  then show ?case
    using team_step_result_members [of m st r g] by auto
qed

lemma list_of_ensure:
  "list_of (if map_of d k = None then AList.update k [] d else d) g = list_of d g"
  by (auto simp: list_of_def AList.update_conv')

lemma access_step_result_members:
  "m \<in> set (list_of (fst (access_step_result st r)) g) \<Longrightarrow>
   m \<in> set (list_of (fst st) g) \<or> contributed_id (access_github_id_cell r) = Some m"
  by (auto simp: access_step_result_def Let_def list_of_update access_contribution_Some
      update_current_repo_named list_of_ensure split: option.splits if_splits)

lemma access_fold_members:
  "m \<in> set (list_of (fst (foldl access_step_result st rows)) g) \<Longrightarrow>
   m \<in> set (list_of (fst st) g)
   \<or> (\<exists>r \<in> set rows. contributed_id (access_github_id_cell r) = Some m)"
proof (induction rows arbitrary: st)
  case Nil
  then show ?case by simp
next
  case (Cons r rows)
  from Cons.prems have "m \<in> set (list_of (fst (foldl access_step_result (access_step_result st r) rows)) g)"
    by simp
  then have "m \<in> set (list_of (fst (access_step_result st r)) g)
      \<or> (\<exists>r \<in> set rows. contributed_id (access_github_id_cell r) = Some m)"
    by (rule Cons.IH)
  then show ?case
    using access_step_result_members [of m st r g] by auto
qed

lemma team_step_result_zero:
  "map_of (fst st) 0 = None \<Longrightarrow> map_of (fst (team_step_result st r)) 0 = None"
  by (auto simp: team_step_result_def Let_def AList.update_conv' team_contribution_Some
      split: option.splits)

lemma team_fold_zero:
  "map_of (fst st) 0 = None \<Longrightarrow> map_of (fst (foldl team_step_result st rows)) 0 = None"
  by (induction rows arbitrary: st) (simp_all add: team_step_result_zero)

lemma team_step_result_stays_zero:
  "update_current_team (Some 0) (team_cell r) = Some 0 \<Longrightarrow>
   team_step_result (teams, Some 0) r = (teams, Some 0)"
  by (simp add: team_step_result_def team_contribution_def)

lemma team_fold_stays_zero:
  "\<forall>r \<in> set rows. update_current_team (Some 0) (team_cell r) = Some 0 \<Longrightarrow>
   foldl team_step_result (teams, Some 0) rows = (teams, Some 0)"
  by (induction rows) (simp_all add: team_step_result_stays_zero)

lemma team_step_result_no_member:
  "isna (github_id_cell r) \<Longrightarrow>
   team_step_result st r = (fst st, update_current_team (snd st) (team_cell r))"
  by (simp add: team_step_result_def team_contribution_def isna_contributed_id Let_def
      split: option.splits)

lemma team_fold_no_member:
  "\<forall>r \<in> set rows. isna (github_id_cell r) \<Longrightarrow>
   fst (foldl team_step_result st rows) = fst st"
  by (induction rows arbitrary: st) (simp_all add: team_step_result_no_member)

lemma access_step_result_no_member:
  "isna (access_github_id_cell r) \<Longrightarrow>
   access_step_result st r = update_current_repo st (repo_cell r)"
  by (simp add: access_step_result_def access_contribution_def isna_contributed_id Let_def
      split: option.splits)

lemma access_fold_no_member:
  "\<forall>r \<in> set rows. named_repo (repo_cell r) \<noteq> None \<and> isna (access_github_id_cell r) \<Longrightarrow>
   \<forall>g l. map_of (fst st) g = Some l \<longrightarrow> l = [] \<Longrightarrow>
   map_of (fst (foldl access_step_result st rows)) g =
     (if Some g \<in> (\<lambda>r. named_repo (repo_cell r)) ` set rows then Some [] else map_of (fst st) g)"
proof (induction rows arbitrary: st)
  case Nil
  then show ?case by simp
next
  case (Cons r rows)
  obtain k where k: "named_repo (repo_cell r) = Some k"
    using Cons.prems(1) by auto
  have na: "isna (access_github_id_cell r)"
    using Cons.prems(1) by simp
  define st1 where "st1 = access_step_result st r"
  have st1: "map_of (fst st1) g' = (if g' = k then Some [] else map_of (fst st) g')" for g'
    using Cons.prems(2) k
    by (auto simp: st1_def access_step_result_no_member [OF na] update_current_repo_named
        AList.update_conv')
  then have empty1: "\<forall>g l. map_of (fst st1) g = Some l \<longrightarrow> l = []"
    using Cons.prems(2) by (auto split: if_splits)
  have rest: "\<forall>r \<in> set rows. named_repo (repo_cell r) \<noteq> None \<and> isna (access_github_id_cell r)"
    using Cons.prems(1) by simp
  have "map_of (fst (foldl access_step_result st1 rows)) g =
      (if Some g \<in> (\<lambda>r. named_repo (repo_cell r)) ` set rows then Some [] else map_of (fst st1) g)"
    using rest empty1 by (rule Cons.IH)
  then show ?case
    using k by (auto simp: st1 st1_def [symmetric])
qed

lemma add_access_github_id_isna:
  "isna github_id \<Longrightarrow> add_access_github_id repo_access current_repo github_id = Inr repo_access"
  by (simp add: add_access_github_id_def split: option.splits)

lemma snd_update_current_repo:
  "snd (update_current_repo st repo) = (case named_repo repo of None \<Rightarrow> snd st | Some g \<Rightarrow> Some g)"
  by (simp add: update_current_repo_named split: option.splits)

lemma count_list_snoc: "count_list (l @ [x]) m = count_list l m + (if x = m then 1 else 0)"
  by (induction l) simp_all

lemma team_step_result_count:
  "count_list (list_of (fst (team_step_result st r)) g) m =
     count_list (list_of (fst st) g) m
     + count_list (case team_contribution (update_current_team (snd st) (team_cell r)) (github_id_cell r) of
                     None \<Rightarrow> [] | Some p \<Rightarrow> [p]) (g, m)"
  by (cases "team_contribution (update_current_team (snd st) (team_cell r)) (github_id_cell r)")
     (auto simp: team_step_result_def Let_def list_of_update count_list_snoc)

lemma team_fold_count:
  "count_list (list_of (fst (foldl team_step_result st rows)) g) m =
     count_list (list_of (fst st) g) m + count_list (team_contributions (snd st) rows) (g, m)"
proof (induction rows arbitrary: st)
  case Nil
  then show ?case by simp
next
  case (Cons r rows)
  have cur: "snd (team_step_result st r) = update_current_team (snd st) (team_cell r)"
    by (simp add: team_step_result_def Let_def)
  show ?case
    by (simp add: Cons.IH team_step_result_count cur Let_def)
qed

lemma access_step_result_distinct:
  "\<forall>g. distinct (list_of (fst st) g) \<Longrightarrow> distinct (list_of (fst (access_step_result st r)) g)"
  by (auto simp: access_step_result_def Let_def list_of_update update_current_repo_named
      list_of_ensure split: option.splits)

lemma access_fold_distinct:
  "\<forall>g. distinct (list_of (fst st) g) \<Longrightarrow>
   distinct (list_of (fst (foldl access_step_result st rows)) g)"
proof (induction rows arbitrary: st)
  case Nil
  then show ?case by simp
next
  case (Cons r rows)
  from Cons.prems have "\<forall>g. distinct (list_of (fst (access_step_result st r)) g)"
    by (simp add: access_step_result_distinct)
  then show ?case
    by (simp add: Cons.IH)
qed

lemma access_step_result_keeps:
  "m \<in> set (list_of (fst st) g) \<Longrightarrow> m \<in> set (list_of (fst (access_step_result st r)) g)"
  by (auto simp: access_step_result_def Let_def list_of_update update_current_repo_named
      list_of_ensure split: option.splits)

lemma access_fold_keeps:
  "m \<in> set (list_of (fst st) g) \<Longrightarrow>
   m \<in> set (list_of (fst (foldl access_step_result st rows)) g)"
  by (induction rows arbitrary: st) (simp_all add: access_step_result_keeps)

lemma access_step_result_adds:
  "access_contribution (snd (update_current_repo st (repo_cell r))) (access_github_id_cell r) = Some (g, m)
   \<Longrightarrow> m \<in> set (list_of (fst (access_step_result st r)) g)"
  by (auto simp: access_step_result_def Let_def list_of_update)

lemma access_fold_adds:
  "(g, m) \<in> set (access_contributions (snd st) rows) \<Longrightarrow>
   m \<in> set (list_of (fst (foldl access_step_result st rows)) g)"
proof (induction rows arbitrary: st)
  case Nil
  then show ?case by simp
next
  case (Cons r rows)
  have cur: "snd (access_step_result st r) = snd (update_current_repo st (repo_cell r))"
    by (simp add: access_step_result_def Let_def)
  have same: "snd (update_current_repo ([], snd st) (repo_cell r)) = snd (update_current_repo st (repo_cell r))"
    by (simp add: snd_update_current_repo split: option.splits)
  from Cons.prems consider
      (here) "access_contribution (snd (update_current_repo st (repo_cell r))) (access_github_id_cell r)
          = Some (g, m)"
    | (later) "(g, m) \<in> set (access_contributions (snd (access_step_result st r)) rows)"
    by (auto simp: Let_def same cur split: option.splits)
  then show ?case
  proof cases
    case here
    then have "m \<in> set (list_of (fst (access_step_result st r)) g)"
      by (rule access_step_result_adds)
    then show ?thesis
      by (simp add: access_fold_keeps)
  next
    case later
    then show ?thesis
      by (simp add: Cons.IH)
  qed
qed

lemma count_list_pos: "0 < count_list l m \<longleftrightarrow> m \<in> set l"
  by (induction l) auto

lemma distinct_count_list_one: "distinct l \<Longrightarrow> m \<in> set l \<Longrightarrow> count_list l m = 1"
  by (induction l) (auto simp: count_list_0_iff)

lemma list_of_nonempty: "list_of d g \<noteq> [] \<Longrightarrow> map_of d g = Some (list_of d g)"
  by (simp add: list_of_def split: option.splits)


section \<open>The pattern for team numbers\<close>


lemma lower_take: "lower (take n s) = take n (lower s)"
  by (simp add: lower_def take_map)






lemma is_substring_Cons_team:
  "is_substring ''team'' (c # cs) \<longleftrightarrow> take 4 (c # cs) = ''team'' \<or> is_substring ''team'' cs"
proof -
  have "length ''team'' = (4::nat)"
    by simp
  with is_substring.simps(2) [of "''team''" c cs] show ?thesis
    by (simp only:)
qed

lemma lower_Cons: "lower (c # cs) = lower_char c # lower cs"
  by (simp add: lower_def)



lemma re_search_team_substring: "re_search_team s = Some ds \<Longrightarrow> is_substring ''team'' (lower s)"
proof (induction s)
  case Nil
  then show ?case by simp
next
  case (Cons c cs)
  show ?case
  proof (cases "match_team_here (c # cs)")
    case None
    with Cons have "is_substring ''team'' (lower cs)"
      by simp
    then show ?thesis
      unfolding lower_Cons using is_substring_Cons_team by blast
  next
    case (Some ds')
    then have "lower (take 4 (c # cs)) = ''team''"
      by (simp add: match_team_here_def split: if_splits)
    then have "take 4 (lower (c # cs)) = ''team''"
      by (simp only: lower_take)
    then show ?thesis
      unfolding lower_Cons using is_substring_Cons_team by blast
  qed
qed

lemma update_current_team_search:
  "update_current_team current_team (PyStr s) =
     (case re_search_team (strip s) of None \<Rightarrow> current_team | Some ds \<Rightarrow> Some (py_int ds))"
  by (auto simp: update_current_team_def Let_def re_search_team_substring split: option.splits)


section \<open>Calls and lines of the provisioning code\<close>

lemma calls_called [simp]: "calls (called c s) = calls s @ [c]"
  by (simp add: called_def)

lemma calls_print [simp]: "calls (print m s) = calls s"
  by (simp add: print_def)

lemma printed_called [simp]: "printed (called c s) = printed s"
  by (simp add: called_def)

lemma printed_print [simp]: "printed (print m s) = printed s @ [m]"
  by (simp add: print_def)

lemma add_collaborator_calls:
  "calls (snd (add_collaborator org s repo user permission)) =
     calls s @ [Add_to_collaborators repo user permission]"
  by (simp add: add_collaborator_def Let_def split: sum.splits)

lemma add_members_calls:
  "calls (add_members org s repo members) =
     calls s @ map (\<lambda>member. Add_to_collaborators repo member ''push'') members"
  by (induction members arbitrary: s) (simp_all add: add_collaborator_calls)

lemma create_repository_created:
  "create_repo org (calls s) repo_name description True True = Inr repo \<Longrightarrow>
   create_repository org s repo_name description =
     (Inr (Some repo),
      print (Created_repository repo_name) (called (Create_repo repo_name description True True) s))"
  by (simp add: create_repository_def Let_def)


lemma create_repository_failed:
  "create_repo org (calls s) repo_name description True True = Inl e \<Longrightarrow> status e \<noteq> 422 \<Longrightarrow>
   create_repository org s repo_name description =
     (Inr None,
      print (Error_creating repo_name e) (called (Create_repo repo_name description True True) s))"
  by (simp add: create_repository_def Let_def)




lemma main_teams_created:
  "map_of teams n = Some members \<Longrightarrow>
   create_repository org (print (Processing_team n (length members)) s)
     (client_repo_name n) (client_description n) = (Inr (Some client), s2) \<Longrightarrow>
   create_repository org (add_members org s2 client members)
     (designer_repo_name n) (designer_description n) = (Inr (Some designer), s4) \<Longrightarrow>
   main_teams org teams s (n # rest) = main_teams org teams (add_members org s4 designer members) rest"
  by (simp add: add_members_if_def)

lemma grant_read_access_queries:
  "filter is_permission_query (calls (snd (grant_read_access org s repo user))) =
     filter is_permission_query (calls s) @ [Get_collaborator_permission repo user]"
  by (simp add: grant_read_access_def add_read_collaborator_def Let_def split: sum.splits)

lemma grant_read_access_fetches:
  "filter is_get_repo (calls (snd (grant_read_access org s repo user))) = filter is_get_repo (calls s)"
  by (simp add: grant_read_access_def add_read_collaborator_def Let_def split: sum.splits)

lemma grant_read_access_partial_lines:
  "filter is_granted_some (printed (snd (grant_read_access org s repo user))) =
     filter is_granted_some (printed s)"
  by (simp add: grant_read_access_def add_read_collaborator_def Let_def split: sum.splits)

lemma grant_members_queries:
  "filter is_permission_query (calls (snd (grant_members org repo st users))) =
     filter is_permission_query (calls (snd st)) @ map (Get_collaborator_permission repo) users"
proof (induction users arbitrary: st)
  case Nil
  then show ?case by simp
next
  case (Cons user users)
  show ?case
    using grant_read_access_queries [of org "snd st" repo user]
    by (cases "grant_read_access org (snd st) repo user") (simp add: Cons.IH)
qed

lemma grant_members_fetches:
  "filter is_get_repo (calls (snd (grant_members org repo st users))) = filter is_get_repo (calls (snd st))"
proof (induction users arbitrary: st)
  case Nil
  then show ?case by simp
next
  case (Cons user users)
  show ?case
    using grant_read_access_fetches [of org "snd st" repo user]
    by (cases "grant_read_access org (snd st) repo user") (simp add: Cons.IH)
qed

lemma grant_members_partial_lines:
  "filter is_granted_some (printed (snd (grant_members org repo st users))) =
     filter is_granted_some (printed (snd st))"
proof (induction users arbitrary: st)
  case Nil
  then show ?case by simp
next
  case (Cons user users)
  show ?case
    using grant_read_access_partial_lines [of org "snd st" repo user]
    by (cases "grant_read_access org (snd st) repo user") (simp add: Cons.IH)
qed

lemma grant_members_count:
  "fst (grant_members org repo st users) =
     fst st + length (filter (\<lambda>ok. ok) (grant_results org repo (snd st) users))"
proof (induction users arbitrary: st)
  case Nil
  then show ?case by simp
next
  case (Cons user users)
  show ?case
    by (cases "grant_read_access org (snd st) repo user") (simp add: Cons.IH)
qed

lemma length_grant_results: "length (grant_results org repo s users) = length users"
proof (induction users arbitrary: s)
  case Nil
  then show ?case by simp
next
  case (Cons user users)
  show ?case
    by (cases "grant_read_access org s repo user") (simp add: Cons.IH)
qed

lemma all_true_count: "length (filter (\<lambda>ok. ok) oks) = length oks \<longleftrightarrow> (\<forall>ok \<in> set oks. ok)"
proof (induction oks)
  case Nil
  then show ?case by simp
next
  case (Cons ok oks)
  show ?case
  proof (cases ok)
    case True
    with Cons show ?thesis by simp
  next
    case False
    have "length (filter (\<lambda>ok. ok) oks) < Suc (length oks)"
      by (simp add: le_imp_less_Suc)
    with False show ?thesis by auto
  qed
qed

lemma access_repo_step_missing:
  "get_repo org (calls (run st)) repo_name = Inl e \<Longrightarrow>
   access_repo_step org st (repo_name, users) =
     st\<lparr>run := print (if status e = 404 then Repository_not_found repo_name
                       else Error_accessing_repository e)
                 (called (Get_repo repo_name) (print (Processing_repository repo_name) (run st))),
        failed_repos := failed_repos st @ [repo_name]\<rparr>"
  by (simp add: access_repo_step_def Let_def)

lemma access_repo_step_found:
  "get_repo org (calls (run st)) repo_name = Inr repo \<Longrightarrow>
   \<exists>s3. access_repo_step org st (repo_name, users) =
     (if \<forall>ok \<in> set (grant_results org repo
            (print Repository_found (called (Get_repo repo_name)
               (print (Processing_repository repo_name) (run st)))) users). ok
      then st\<lparr>run := print (Granted_all (length users)) s3,
              successful_repos := successful_repos st + 1\<rparr>
      else st\<lparr>run := print (Granted_some
              (length (filter (\<lambda>ok. ok) (grant_results org repo
                 (print Repository_found (called (Get_repo repo_name)
                    (print (Processing_repository repo_name) (run st)))) users)))
              (length users)) s3\<rparr>)
     \<and> s3 = snd (grant_members org repo (0, print Repository_found (called (Get_repo repo_name)
               (print (Processing_repository repo_name) (run st)))) users)"
proof -
  assume found: "get_repo org (calls (run st)) repo_name = Inr repo"
  let ?s = "print Repository_found (called (Get_repo repo_name)
               (print (Processing_repository repo_name) (run st)))"
  obtain success_count s3 where g: "grant_members org repo (0, ?s) users = (success_count, s3)"
    by (cases "grant_members org repo (0, ?s) users")
  have count: "success_count = length (filter (\<lambda>ok. ok) (grant_results org repo ?s users))"
    using grant_members_count [of org repo "(0, ?s)" users] g by simp
  have "success_count = length users \<longleftrightarrow> (\<forall>ok \<in> set (grant_results org repo ?s users). ok)"
    using all_true_count [of "grant_results org repo ?s users"]
    by (simp add: count length_grant_results)
  then show ?thesis
    using found g count by (simp add: access_repo_step_def Let_def)
qed

lemma access_repo_step_fetches:
  "filter is_get_repo (calls (run (access_repo_step org st item))) =
     filter is_get_repo (calls (run st)) @ [Get_repo (fst item)]"
proof (cases "get_repo org (calls (run st)) (fst item)")
  case (Inl e)
  then show ?thesis
    by (simp add: access_repo_step_def Let_def)
next
  case (Inr repo)
  let ?s = "print Repository_found (called (Get_repo (fst item))
               (print (Processing_repository (fst item)) (run st)))"
  have "filter is_get_repo (calls (snd (grant_members org repo (0, ?s) (snd item)))) =
      filter is_get_repo (calls (run st)) @ [Get_repo (fst item)]"
    by (simp add: grant_members_fetches)
  with Inr show ?thesis
    by (cases "grant_members org repo (0, ?s) (snd item)") (simp add: access_repo_step_def Let_def)
qed

lemma access_repos_fetches:
  "filter is_get_repo (calls (run (access_repos org st repo_access))) =
     filter is_get_repo (calls (run st)) @ map (\<lambda>item. Get_repo (fst item)) repo_access"
  by (induction repo_access arbitrary: st) (simp_all add: access_repo_step_fetches)

lemma access_repo_step_accounting:
  "Suc (successful_repos st + length (failed_repos st)
      + length (filter is_granted_some (printed (run st)))) =
   successful_repos (access_repo_step org st item)
     + length (failed_repos (access_repo_step org st item))
     + length (filter is_granted_some (printed (run (access_repo_step org st item))))"
proof (cases "get_repo org (calls (run st)) (fst item)")
  case (Inl e)
  then show ?thesis
    by (simp add: access_repo_step_def Let_def)
next
  case (Inr repo)
  let ?s = "print Repository_found (called (Get_repo (fst item))
               (print (Processing_repository (fst item)) (run st)))"
  have "filter is_granted_some (printed (snd (grant_members org repo (0, ?s) (snd item)))) =
      filter is_granted_some (printed (run st))"
    by (simp add: grant_members_partial_lines)
  with Inr show ?thesis
    by (cases "grant_members org repo (0, ?s) (snd item)") (simp add: access_repo_step_def Let_def)
qed

lemma access_repos_accounting:
  "length repo_access + (successful_repos st + length (failed_repos st)
      + length (filter is_granted_some (printed (run st)))) =
   successful_repos (access_repos org st repo_access)
     + length (failed_repos (access_repos org st repo_access))
     + length (filter is_granted_some (printed (run (access_repos org st repo_access))))"
proof (induction repo_access arbitrary: st)
  case Nil
  then show ?case by simp
next
  case (Cons item repo_access)
  show ?case
    using Cons.IH [of "access_repo_step org st item"] access_repo_step_accounting [of st org item]
    by simp
qed

lemma add_members_creates:
  "filter is_create_repo (calls (add_members_if org s repo members)) = filter is_create_repo (calls s)"
  by (cases repo) (simp_all add: add_members_if_def add_members_calls filter_map o_def)

lemma create_repository_no_conflict:
  assumes "\<forall>h name description e. create_repo org h name description True True = Inl e \<longrightarrow> status e \<noteq> 422"
  shows "\<exists>repo s'. create_repository org s repo_name description = (Inr repo, s')
     \<and> filter is_create_repo (calls s') =
         filter is_create_repo (calls s) @ [Create_repo repo_name description True True]"
proof (cases "create_repo org (calls s) repo_name description True True")
  case (Inl e)
  with assms have "status e \<noteq> 422"
    by blast
  with Inl show ?thesis
    by (simp add: create_repository_failed)
next
  case (Inr repo)
  then show ?thesis
    by (simp add: create_repository_created)
qed

lemma main_teams_creates:
  assumes ok: "\<forall>h name description e. create_repo org h name description True True = Inl e \<longrightarrow> status e \<noteq> 422"
  shows "fst (main_teams org teams s nums) = None
     \<and> filter is_create_repo (calls (snd (main_teams org teams s nums))) =
         filter is_create_repo (calls s)
         @ concat (map (\<lambda>n. [Create_repo (client_repo_name n) (client_description n) True True,
                              Create_repo (designer_repo_name n) (designer_description n) True True])
             (filter (\<lambda>n. map_of teams n \<noteq> None) nums))"
proof (induction nums arbitrary: s)
  case Nil
  then show ?case by simp
next
  case (Cons n nums)
  show ?case
  proof (cases "map_of teams n")
    case None
    with Cons.IH [of "print (Team_not_found n) s"] show ?thesis
      by simp
  next
    case (Some members)
    let ?s1 = "print (Processing_team n (length members)) s"
    obtain client s2 where c: "create_repository org ?s1 (client_repo_name n) (client_description n)
          = (Inr client, s2)"
        and c2: "filter is_create_repo (calls s2) = filter is_create_repo (calls ?s1)
          @ [Create_repo (client_repo_name n) (client_description n) True True]"
      using create_repository_no_conflict [OF ok] by blast
    let ?s3 = "add_members_if org s2 client members"
    obtain designer s4 where d: "create_repository org ?s3 (designer_repo_name n) (designer_description n)
          = (Inr designer, s4)"
        and d2: "filter is_create_repo (calls s4) = filter is_create_repo (calls ?s3)
          @ [Create_repo (designer_repo_name n) (designer_description n) True True]"
      using create_repository_no_conflict [OF ok] by blast
    let ?s5 = "add_members_if org s4 designer members"
    have step: "main_teams org teams s (n # nums) = main_teams org teams ?s5 nums"
      using Some c d by simp
    have "filter is_create_repo (calls ?s5) = filter is_create_repo (calls s)
        @ [Create_repo (client_repo_name n) (client_description n) True True,
           Create_repo (designer_repo_name n) (designer_description n) True True]"
      by (simp add: add_members_creates c2 d2)
    with Cons.IH [of ?s5] Some show ?thesis
      unfolding step by simp
  qed
qed

section \<open>The claims about the parsers\<close>

text \<open>
  C1. Both parsers carry the current group forward, and rows that come before the first
  row naming a group leave no trace: with a prefix \<open>pre\<close> of rows none of which names a
  team (Pipeline A) or a repository (Pipeline B), the parser returns for \<open>pre @ rows\<close>
  exactly what it returns for \<open>rows\<close> alone; a sheet made of such rows only gives the
  empty mapping; and an identifier \<open>m\<close> that only such rows carry (no row of \<open>rows\<close>
  yields it) is in no group's list of the returned mapping.
\<close>

theorem member_rows_before_first_group_dropped:
  "((\<forall>r \<in> set pre. named_team (team_cell r) = None) \<longrightarrow>
      read_teams_from_excel (Inr (pre @ rows)) = read_teams_from_excel (Inr rows)
      \<and> read_teams_from_excel (Inr pre) = Inr []
      \<and> ((\<forall>r \<in> set rows. contributed_id (github_id_cell r) \<noteq> Some m) \<longrightarrow>
           (\<exists>teams. read_teams_from_excel (Inr (pre @ rows)) = Inr teams
              \<and> (\<forall>g. m \<notin> set (list_of teams g)))))
   \<and> ((\<forall>r \<in> set pre'. named_repo (repo_cell r) = None) \<longrightarrow>
      read_access_list_from_excel (Inr (pre' @ rows')) = read_access_list_from_excel (Inr rows')
      \<and> read_access_list_from_excel (Inr pre') = Inr []
      \<and> ((\<forall>r \<in> set rows'. contributed_id (access_github_id_cell r) \<noteq> Some m') \<longrightarrow>
           (\<exists>repo_access. read_access_list_from_excel (Inr (pre' @ rows')) = Inr repo_access
              \<and> (\<forall>g. m' \<notin> set (list_of repo_access g)))))"
proof (intro conjI impI)
  assume pre: "\<forall>r \<in> set pre. named_team (team_cell r) = None"
  show "read_teams_from_excel (Inr (pre @ rows)) = read_teams_from_excel (Inr rows)"
    by (simp add: read_teams_from_excel_eq team_fold_unnamed [OF pre])
  show "read_teams_from_excel (Inr pre) = Inr []"
    by (simp add: read_teams_from_excel_eq team_fold_unnamed [OF pre])
  assume rows: "\<forall>r \<in> set rows. contributed_id (github_id_cell r) \<noteq> Some m"
  have "m \<notin> set (list_of (fst (foldl team_step_result ([], None) rows)) g)" for g
    using team_fold_members [of m "([], None)" rows g] rows by (auto simp: list_of_def)
  then show "\<exists>teams. read_teams_from_excel (Inr (pre @ rows)) = Inr teams
      \<and> (\<forall>g. m \<notin> set (list_of teams g))"
    by (simp add: read_teams_from_excel_eq team_fold_unnamed [OF pre])
next
  assume pre: "\<forall>r \<in> set pre'. named_repo (repo_cell r) = None"
  show "read_access_list_from_excel (Inr (pre' @ rows')) = read_access_list_from_excel (Inr rows')"
    by (simp add: read_access_list_from_excel_eq access_fold_unnamed [OF pre])
  show "read_access_list_from_excel (Inr pre') = Inr []"
    by (simp add: read_access_list_from_excel_eq access_fold_unnamed [OF pre])
  assume rows: "\<forall>r \<in> set rows'. contributed_id (access_github_id_cell r) \<noteq> Some m'"
  have "m' \<notin> set (list_of (fst (foldl access_step_result ([], None) rows')) g)" for g
    using access_fold_members [of m' "([], None)" rows' g] rows by (auto simp: list_of_def)
  then show "\<exists>repo_access. read_access_list_from_excel (Inr (pre' @ rows')) = Inr repo_access
      \<and> (\<forall>g. m' \<notin> set (list_of repo_access g))"
    by (simp add: read_access_list_from_excel_eq access_fold_unnamed [OF pre])
qed

theorem member_rows_before_first_group_dropped_witness:
  "named_team (team_cell [(''Team'', PyNaN), (''GITHUB ID'', PyStr ''zed'')]) = None
   \<and> contributed_id (github_id_cell [(''Team'', PyStr ''Team 1''), (''GITHUB ID'', PyStr ''alice'')])
       \<noteq> Some ''zed''
   \<and> (\<exists>teams. read_teams_from_excel
         (Inr ([[(''Team'', PyNaN), (''GITHUB ID'', PyStr ''zed'')]]
               @ [[(''Team'', PyStr ''Team 1''), (''GITHUB ID'', PyStr ''alice'')]])) = Inr teams
         \<and> (\<forall>g. ''zed'' \<notin> set (list_of teams g)))
   \<and> named_repo (repo_cell [(''Repository'', PyNaN), (''GITHUB ID'', PyStr ''zed'')]) = None
   \<and> contributed_id (access_github_id_cell [(''Repository'', PyStr ''Client1''), (''GITHUB ID'', PyStr ''alice'')])
       \<noteq> Some ''zed''
   \<and> (\<exists>repo_access. read_access_list_from_excel
         (Inr ([[(''Repository'', PyNaN), (''GITHUB ID'', PyStr ''zed'')]]
               @ [[(''Repository'', PyStr ''Client1''), (''GITHUB ID'', PyStr ''alice'')]])) = Inr repo_access
         \<and> (\<forall>g. ''zed'' \<notin> set (list_of repo_access g)))"
proof -
  have a: "named_team (team_cell [(''Team'', PyNaN), (''GITHUB ID'', PyStr ''zed'')]) = None"
    by code_simp
  have b: "contributed_id (github_id_cell [(''Team'', PyStr ''Team 1''), (''GITHUB ID'', PyStr ''alice'')])
       \<noteq> Some ''zed''"
    by code_simp
  have c: "named_repo (repo_cell [(''Repository'', PyNaN), (''GITHUB ID'', PyStr ''zed'')]) = None"
    by code_simp
  have d: "contributed_id (access_github_id_cell [(''Repository'', PyStr ''Client1''), (''GITHUB ID'', PyStr ''alice'')])
       \<noteq> Some ''zed''"
    by code_simp
  have pre: "\<forall>r \<in> set [[(''Team'', PyNaN), (''GITHUB ID'', PyStr ''zed'')]]. named_team (team_cell r) = None"
    using a by simp
  have rows: "\<forall>r \<in> set [[(''Team'', PyStr ''Team 1''), (''GITHUB ID'', PyStr ''alice'')]].
      contributed_id (github_id_cell r) \<noteq> Some ''zed''"
    using b by simp
  have pre': "\<forall>r \<in> set [[(''Repository'', PyNaN), (''GITHUB ID'', PyStr ''zed'')]]. named_repo (repo_cell r) = None"
    using c by simp
  have rows': "\<forall>r \<in> set [[(''Repository'', PyStr ''Client1''), (''GITHUB ID'', PyStr ''alice'')]].
      contributed_id (access_github_id_cell r) \<noteq> Some ''zed''"
    using d by simp
  note parsers = member_rows_before_first_group_dropped
      [of "[[(''Team'', PyNaN), (''GITHUB ID'', PyStr ''zed'')]]"
          "[[(''Team'', PyStr ''Team 1''), (''GITHUB ID'', PyStr ''alice'')]]" "''zed''"
          "[[(''Repository'', PyNaN), (''GITHUB ID'', PyStr ''zed'')]]"
          "[[(''Repository'', PyStr ''Client1''), (''GITHUB ID'', PyStr ''alice'')]]" "''zed''"]
  from parsers pre rows pre' rows' a b c d show ?thesis
    by blast
qed

text \<open>
  C10. The Pipeline A parser tests \<^verbatim>\<open>current_team\<close> for truth, so team number 0 counts
  as no team: whatever the rows, the returned mapping has no key 0; and while the current
  team is 0, rows that leave it at 0 change nothing, whatever member cells they carry.
  A group cell such as \<^verbatim>\<open>Team 0\<close> does make 0 the current team.
\<close>

theorem team_zero_is_never_a_key:
  "(\<exists>teams. read_teams_from_excel (Inr rows) = Inr teams \<and> map_of teams 0 = None)
   \<and> ((\<forall>r \<in> set rows'. update_current_team (Some 0) (team_cell r) = Some 0) \<longrightarrow>
        team_rows (teams0, Some 0) rows' = Inr (teams0, Some 0))
   \<and> update_current_team current_team (PyStr ''Team 0'') = Some 0"
proof (intro conjI impI)
  have "re_search_team (strip ''Team 0'') = Some ''0''"
    by code_simp
  moreover have "py_int ''0'' = 0"
    by code_simp
  ultimately show "update_current_team current_team (PyStr ''Team 0'') = Some 0"
    by (simp add: update_current_team_search)
next
  have "map_of (fst (foldl team_step_result ([], None) rows)) 0 = None"
    by (rule team_fold_zero) simp
  then show "\<exists>teams. read_teams_from_excel (Inr rows) = Inr teams \<and> map_of teams 0 = None"
    by (simp add: read_teams_from_excel_eq)
next
  assume "\<forall>r \<in> set rows'. update_current_team (Some 0) (team_cell r) = Some 0"
  then show "team_rows (teams0, Some 0) rows' = Inr (teams0, Some 0)"
    by (simp add: team_rows_eq team_fold_stays_zero)
qed

theorem team_zero_is_never_a_key_witness:
  "update_current_team (Some 0) (team_cell [(''Team'', PyNaN), (''GITHUB ID'', PyStr ''bob'')]) = Some 0
   \<and> team_rows ([(1, [''alice''])], Some 0) [[(''Team'', PyNaN), (''GITHUB ID'', PyStr ''bob'')]]
       = Inr ([(1, [''alice''])], Some 0)"
proof -
  have a: "update_current_team (Some 0) (team_cell [(''Team'', PyNaN), (''GITHUB ID'', PyStr ''bob'')]) = Some 0"
    by code_simp
  have stays: "\<forall>r \<in> set [[(''Team'', PyNaN), (''GITHUB ID'', PyStr ''bob'')]].
      update_current_team (Some 0) (team_cell r) = Some 0"
    using a by simp
  from a stays team_zero_is_never_a_key
      [of _ "[[(''Team'', PyNaN), (''GITHUB ID'', PyStr ''bob'')]]" "[(1, [''alice''])]"]
  show ?thesis by blast
qed

text \<open>
  C3. The two parsers differ on repeated members. Whenever some row contributes the
  cleaned identifier \<open>m\<close> to team \<open>g\<close>, the list Pipeline A returns for \<open>g\<close> holds \<open>m\<close>
  as many times as it was contributed (twice when contributed twice); whenever some row
  contributes \<open>m'\<close> to repository \<open>g'\<close>, the list Pipeline B returns for \<open>g'\<close> holds
  \<open>m'\<close> exactly once, however often it was contributed.
\<close>

theorem duplicate_members_kept_by_teams_dropped_by_access:
  "(0 < count_list (team_contributions None rows) (g, m) \<longrightarrow>
      (\<exists>teams l. read_teams_from_excel (Inr rows) = Inr teams \<and> map_of teams g = Some l
         \<and> count_list l m = count_list (team_contributions None rows) (g, m)))
   \<and> (0 < count_list (access_contributions None rows') (g', m') \<longrightarrow>
      (\<exists>repo_access l. read_access_list_from_excel (Inr rows') = Inr repo_access
         \<and> map_of repo_access g' = Some l \<and> count_list l m' = 1))"
proof (intro conjI impI)
  let ?teams = "fst (foldl team_step_result ([], None) rows)"
  assume pos: "0 < count_list (team_contributions None rows) (g, m)"
  have count: "count_list (list_of ?teams g) m = count_list (team_contributions None rows) (g, m)"
    using team_fold_count [of "([], None)" rows g m] by (simp add: list_of_def)
  with pos have "list_of ?teams g \<noteq> []"
    by auto
  then have "map_of ?teams g = Some (list_of ?teams g)"
    by (rule list_of_nonempty)
  with count show "\<exists>teams l. read_teams_from_excel (Inr rows) = Inr teams \<and> map_of teams g = Some l
         \<and> count_list l m = count_list (team_contributions None rows) (g, m)"
    by (simp add: read_teams_from_excel_eq)
next
  let ?access = "fst (foldl access_step_result ([], None) rows')"
  assume "0 < count_list (access_contributions None rows') (g', m')"
  then have "(g', m') \<in> set (access_contributions None rows')"
    by (simp add: count_list_pos)
  then have mem: "m' \<in> set (list_of ?access g')"
    using access_fold_adds [of g' m' "([], None)" rows'] by simp
  have "distinct (list_of ?access g')"
    by (rule access_fold_distinct) (simp add: list_of_def)
  with mem have one: "count_list (list_of ?access g') m' = 1"
    by (simp add: distinct_count_list_one)
  from mem have "list_of ?access g' \<noteq> []"
    by auto
  then have "map_of ?access g' = Some (list_of ?access g')"
    by (rule list_of_nonempty)
  with one show "\<exists>repo_access l. read_access_list_from_excel (Inr rows') = Inr repo_access
         \<and> map_of repo_access g' = Some l \<and> count_list l m' = 1"
    by (simp add: read_access_list_from_excel_eq)
qed

theorem duplicate_members_kept_by_teams_dropped_by_access_witness:
  "count_list (team_contributions None
       [[(''Team'', PyStr ''Team 1''), (''GITHUB ID'', PyStr ''alice'')],
        [(''Team'', PyNaN), (''GITHUB ID'', PyStr ''@alice'')]]) (1, ''alice'') = 2
   \<and> (\<exists>teams l. read_teams_from_excel
         (Inr [[(''Team'', PyStr ''Team 1''), (''GITHUB ID'', PyStr ''alice'')],
               [(''Team'', PyNaN), (''GITHUB ID'', PyStr ''@alice'')]]) = Inr teams
         \<and> map_of teams 1 = Some l \<and> count_list l ''alice'' = 2)
   \<and> count_list (access_contributions None
       [[(''Repository'', PyStr ''Client1''), (''GITHUB ID'', PyStr ''alice'')],
        [(''Repository'', PyNaN), (''GITHUB ID'', PyStr ''@alice'')]]) (''Client1'', ''alice'') = 2
   \<and> (\<exists>repo_access l. read_access_list_from_excel
         (Inr [[(''Repository'', PyStr ''Client1''), (''GITHUB ID'', PyStr ''alice'')],
               [(''Repository'', PyNaN), (''GITHUB ID'', PyStr ''@alice'')]]) = Inr repo_access
         \<and> map_of repo_access ''Client1'' = Some l \<and> count_list l ''alice'' = 1)"
proof -
  have a: "count_list (team_contributions None
       [[(''Team'', PyStr ''Team 1''), (''GITHUB ID'', PyStr ''alice'')],
        [(''Team'', PyNaN), (''GITHUB ID'', PyStr ''@alice'')]]) (1, ''alice'') = 2"
    by code_simp
  have b: "count_list (access_contributions None
       [[(''Repository'', PyStr ''Client1''), (''GITHUB ID'', PyStr ''alice'')],
        [(''Repository'', PyNaN), (''GITHUB ID'', PyStr ''@alice'')]]) (''Client1'', ''alice'') = 2"
    by code_simp
  note parsers = duplicate_members_kept_by_teams_dropped_by_access
      [of "[[(''Team'', PyStr ''Team 1''), (''GITHUB ID'', PyStr ''alice'')],
            [(''Team'', PyNaN), (''GITHUB ID'', PyStr ''@alice'')]]" 1 "''alice''"
          "[[(''Repository'', PyStr ''Client1''), (''GITHUB ID'', PyStr ''alice'')],
            [(''Repository'', PyNaN), (''GITHUB ID'', PyStr ''@alice'')]]" "''Client1''" "''alice''"]
  from parsers a b show ?thesis
    by simp
qed

text \<open>
  C4, as the code has it. A row that names a group and has no member cell makes that
  group the current one in both parsers. Pipeline B also registers it: the repository
  gets an empty list unless it has a list already, and an access list made of such rows
  only maps exactly the repositories named to the empty list. Pipeline A creates a
  team's list only when it appends the first member (line 57), so such a row leaves the
  dictionary as it was, and a roster none of whose rows has a member cell gives the empty
  mapping.
\<close>

theorem group_row_without_member:
  "(named_repo (repo_cell r) = Some g \<and> isna (access_github_id_cell r) \<longrightarrow>
      access_row_step st r =
        Inr (if map_of (fst st) g = None then AList.update g [] (fst st) else fst st, Some g))
   \<and> ((\<forall>r \<in> set rows. named_repo (repo_cell r) \<noteq> None \<and> isna (access_github_id_cell r)) \<longrightarrow>
      (\<exists>repo_access. read_access_list_from_excel (Inr rows) = Inr repo_access
         \<and> (\<forall>g. map_of repo_access g =
                  (if Some g \<in> (\<lambda>r. named_repo (repo_cell r)) ` set rows then Some [] else None))))
   \<and> (named_team (team_cell r') = Some t \<and> isna (github_id_cell r') \<longrightarrow>
      team_row_step st' r' = Inr (fst st', Some t))
   \<and> ((\<forall>r \<in> set rows'. isna (github_id_cell r)) \<longrightarrow> read_teams_from_excel (Inr rows') = Inr [])"
proof (intro conjI impI allI)
  assume "named_repo (repo_cell r) = Some g \<and> isna (access_github_id_cell r)"
  then show "access_row_step st r =
        Inr (if map_of (fst st) g = None then AList.update g [] (fst st) else fst st, Some g)"
    by (simp add: access_row_step_def Let_def add_access_github_id_isna update_current_repo_named)
next
  assume all: "\<forall>r \<in> set rows. named_repo (repo_cell r) \<noteq> None \<and> isna (access_github_id_cell r)"
  have "map_of (fst (foldl access_step_result ([], None) rows)) g =
      (if Some g \<in> (\<lambda>r. named_repo (repo_cell r)) ` set rows then Some [] else None)" for g
    using access_fold_no_member [OF all, of "([], None)" g] by simp
  then show "\<exists>repo_access. read_access_list_from_excel (Inr rows) = Inr repo_access
         \<and> (\<forall>g. map_of repo_access g =
                  (if Some g \<in> (\<lambda>r. named_repo (repo_cell r)) ` set rows then Some [] else None))"
    by (simp add: read_access_list_from_excel_eq)
next
  assume "named_team (team_cell r') = Some t \<and> isna (github_id_cell r')"
  then show "team_row_step st' r' = Inr (fst st', Some t)"
    by (simp add: team_row_step_eq team_step_result_no_member update_current_team_named)
next
  assume "\<forall>r \<in> set rows'. isna (github_id_cell r)"
  then show "read_teams_from_excel (Inr rows') = Inr []"
    by (simp add: read_teams_from_excel_eq team_fold_no_member)
qed

theorem group_row_without_member_witness:
  "named_repo (repo_cell [(''Repository'', PyStr ''Client1''), (''GITHUB ID'', PyNaN)]) = Some ''Client1''
   \<and> isna (access_github_id_cell [(''Repository'', PyStr ''Client1''), (''GITHUB ID'', PyNaN)])
   \<and> access_row_step ([], None) [(''Repository'', PyStr ''Client1''), (''GITHUB ID'', PyNaN)]
       = Inr ([(''Client1'', [])], Some ''Client1'')
   \<and> (\<exists>repo_access.
         read_access_list_from_excel (Inr [[(''Repository'', PyStr ''Client1''), (''GITHUB ID'', PyNaN)]])
           = Inr repo_access
         \<and> (\<forall>g. map_of repo_access g = (if g = ''Client1'' then Some [] else None)))
   \<and> named_team (team_cell [(''Team'', PyStr ''Team 1''), (''GITHUB ID'', PyNaN)]) = Some 1
   \<and> isna (github_id_cell [(''Team'', PyStr ''Team 1''), (''GITHUB ID'', PyNaN)])
   \<and> team_row_step ([], None) [(''Team'', PyStr ''Team 1''), (''GITHUB ID'', PyNaN)] = Inr ([], Some 1)
   \<and> read_teams_from_excel (Inr [[(''Team'', PyStr ''Team 1''), (''GITHUB ID'', PyNaN)]]) = Inr []"
proof -
  have a: "named_repo (repo_cell [(''Repository'', PyStr ''Client1''), (''GITHUB ID'', PyNaN)]) = Some ''Client1''"
    by code_simp
  have b: "isna (access_github_id_cell [(''Repository'', PyStr ''Client1''), (''GITHUB ID'', PyNaN)])"
    by code_simp
  have c: "named_team (team_cell [(''Team'', PyStr ''Team 1''), (''GITHUB ID'', PyNaN)]) = Some 1"
    by code_simp
  have d: "isna (github_id_cell [(''Team'', PyStr ''Team 1''), (''GITHUB ID'', PyNaN)])"
    by code_simp
  note parsers = group_row_without_member
      [of "[(''Repository'', PyStr ''Client1''), (''GITHUB ID'', PyNaN)]" "''Client1''" "([], None)"
          "[[(''Repository'', PyStr ''Client1''), (''GITHUB ID'', PyNaN)]]"
          "[(''Team'', PyStr ''Team 1''), (''GITHUB ID'', PyNaN)]" 1 "([], None)"
          "[[(''Team'', PyStr ''Team 1''), (''GITHUB ID'', PyNaN)]]"]
  from parsers a b c d show ?thesis
    by simp
qed

text \<open>
  C4 as the claim states it fails for Pipeline A: the one-row roster whose row names
  team 1 and has an empty member cell parses to the empty mapping, so team 1 is not
  registered with an empty list.
\<close>

theorem team_without_member_not_registered:
  "named_team (team_cell [(''Team'', PyStr ''Team 1''), (''GITHUB ID'', PyNaN)]) = Some 1
   \<and> isna (github_id_cell [(''Team'', PyStr ''Team 1''), (''GITHUB ID'', PyNaN)])
   \<and> read_teams_from_excel (Inr [[(''Team'', PyStr ''Team 1''), (''GITHUB ID'', PyNaN)]]) = Inr []"
  by code_simp

section \<open>The claim about team numbers\<close>




section \<open>The claims about repositories and grants\<close>



text \<open>
  C6. The read grant first asks for the member's permission. If the answer is
  \<^verbatim>\<open>admin\<close>, \<^verbatim>\<open>write\<close> or \<^verbatim>\<open>read\<close>, it returns success and the query is the only
  call it makes. In every other case (the query raises, or answers anything else) it
  makes exactly one more call, adding the member with \<^verbatim>\<open>pull\<close> permission, and it
  returns whether that call succeeded.
\<close>

theorem ensure_at_least_read:
  "(get_collaborator_permission org (calls s) repo user = Inr permission
      \<and> permission \<in> {''admin'', ''write'', ''read''} \<longrightarrow>
      fst (grant_read_access org s repo user)
      \<and> calls (snd (grant_read_access org s repo user)) =
          calls s @ [Get_collaborator_permission repo user])
   \<and> ((\<forall>permission. get_collaborator_permission org (calls s) repo user = Inr permission \<longrightarrow>
          permission \<notin> {''admin'', ''write'', ''read''}) \<longrightarrow>
      calls (snd (grant_read_access org s repo user)) =
        calls s @ [Get_collaborator_permission repo user, Add_to_collaborators repo user ''pull'']
      \<and> fst (grant_read_access org s repo user) =
          (case add_to_collaborators org (calls s @ [Get_collaborator_permission repo user]) repo user ''pull'' of
             Inl e \<Rightarrow> False
           | Inr u \<Rightarrow> True))"
proof (intro conjI impI)
  assume a: "get_collaborator_permission org (calls s) repo user = Inr permission
      \<and> permission \<in> {''admin'', ''write'', ''read''}"
  then show "fst (grant_read_access org s repo user)"
    by (auto simp: grant_read_access_def Let_def)
  from a show "calls (snd (grant_read_access org s repo user)) =
          calls s @ [Get_collaborator_permission repo user]"
    by (auto simp: grant_read_access_def Let_def)
next
  assume a: "\<forall>permission. get_collaborator_permission org (calls s) repo user = Inr permission \<longrightarrow>
          permission \<notin> {''admin'', ''write'', ''read''}"
  then have g: "grant_read_access org s repo user =
      add_read_collaborator org (called (Get_collaborator_permission repo user) s) repo user"
    by (auto simp: grant_read_access_def Let_def split: sum.splits)
  show "calls (snd (grant_read_access org s repo user)) =
        calls s @ [Get_collaborator_permission repo user, Add_to_collaborators repo user ''pull'']"
    by (simp add: g add_read_collaborator_def Let_def split: sum.splits)
  show "fst (grant_read_access org s repo user) =
          (case add_to_collaborators org (calls s @ [Get_collaborator_permission repo user]) repo user ''pull'' of
             Inl e \<Rightarrow> False
           | Inr u \<Rightarrow> True)"
    by (simp add: g add_read_collaborator_def Let_def split: sum.splits)
qed

theorem ensure_at_least_read_witness:
  "get_collaborator_permission
       (example_platform (\<lambda>name. None) (\<lambda>name. None) (\<lambda>user. None)
          (\<lambda>user. if user = ''alice'' then Inr ''write'' else Inl \<lparr>status = 404, data = ''Not Found''\<rparr>))
       (calls start) ''Client1'' ''alice'' = Inr ''write''
   \<and> ''write'' \<in> {''admin'', ''write'', ''read''}
   \<and> calls (snd (grant_read_access
       (example_platform (\<lambda>name. None) (\<lambda>name. None) (\<lambda>user. None)
          (\<lambda>user. if user = ''alice'' then Inr ''write'' else Inl \<lparr>status = 404, data = ''Not Found''\<rparr>))
       start ''Client1'' ''alice'')) = calls start @ [Get_collaborator_permission ''Client1'' ''alice'']
   \<and> get_collaborator_permission
       (example_platform (\<lambda>name. None) (\<lambda>name. None) (\<lambda>user. None)
          (\<lambda>user. if user = ''alice'' then Inr ''write'' else Inl \<lparr>status = 404, data = ''Not Found''\<rparr>))
       (calls start) ''Client1'' ''bob'' = Inl \<lparr>status = 404, data = ''Not Found''\<rparr>
   \<and> calls (snd (grant_read_access
       (example_platform (\<lambda>name. None) (\<lambda>name. None) (\<lambda>user. None)
          (\<lambda>user. if user = ''alice'' then Inr ''write'' else Inl \<lparr>status = 404, data = ''Not Found''\<rparr>))
       start ''Client1'' ''bob'')) =
       calls start @ [Get_collaborator_permission ''Client1'' ''bob'',
                      Add_to_collaborators ''Client1'' ''bob'' ''pull'']"
proof -
  let ?org = "example_platform (\<lambda>name. None) (\<lambda>name. None) (\<lambda>user. None)
          (\<lambda>user. if user = ''alice'' then Inr ''write'' else Inl \<lparr>status = 404, data = ''Not Found''\<rparr>)"
  have a: "get_collaborator_permission ?org (calls start) ''Client1'' ''alice'' = Inr ''write''"
    by (simp add: example_platform_def)
  have b: "''write'' \<in> {''admin'', ''write'', ''read''}"
    by simp
  have c: "get_collaborator_permission ?org (calls start) ''Client1'' ''bob''
      = Inl \<lparr>status = 404, data = ''Not Found''\<rparr>"
    by (simp add: example_platform_def)
  then have c': "\<forall>permission. get_collaborator_permission ?org (calls start) ''Client1'' ''bob'' = Inr permission
      \<longrightarrow> permission \<notin> {''admin'', ''write'', ''read''}"
    by simp
  from a b ensure_at_least_read [of ?org start "''Client1''" "''alice''" "''write''"]
  have d: "calls (snd (grant_read_access ?org start ''Client1'' ''alice'')) =
      calls start @ [Get_collaborator_permission ''Client1'' ''alice'']"
    by blast
  from c' ensure_at_least_read [of ?org start "''Client1''" "''bob''"]
  have e: "calls (snd (grant_read_access ?org start ''Client1'' ''bob'')) =
       calls start @ [Get_collaborator_permission ''Client1'' ''bob'',
                      Add_to_collaborators ''Client1'' ''bob'' ''pull'']"
    by blast
  show ?thesis
    by (intro conjI a b c d e)
qed

text \<open>
  C8. With a roster that gives team 1 the members alice and bob, one configured team,
  and a platform on which every creation succeeds, the run makes six calls, in this
  order: it creates \<^verbatim>\<open>Client1\<close>, adds alice and bob to it with push permission, creates
  \<^verbatim>\<open>Designer1\<close>, and adds alice and bob to that with push permission. So there are
  exactly two creations and exactly four grants, whatever the platform answers to the
  grants.
\<close>

theorem one_team_two_repositories_four_grants:
  "map_of teams 1 = Some [''alice'', ''bob'']
   \<and> (\<forall>h name description. \<exists>repo. create_repo org h name description True True = Inr repo) \<longrightarrow>
   fst (main_create org 1 teams s) = None
   \<and> (\<exists>client designer. calls (snd (main_create org 1 teams s)) =
        calls s @ [Create_repo ''Client1'' ''Client repository for Team 1'' True True,
                   Add_to_collaborators client ''alice'' ''push'',
                   Add_to_collaborators client ''bob'' ''push'',
                   Create_repo ''Designer1'' ''Designer repository for Team 1'' True True,
                   Add_to_collaborators designer ''alice'' ''push'',
                   Add_to_collaborators designer ''bob'' ''push''])"
proof (intro impI)
  assume a: "map_of teams 1 = Some [''alice'', ''bob'']
   \<and> (\<forall>h name description. \<exists>repo. create_repo org h name description True True = Inr repo)"
  have names: "client_repo_name 1 = ''Client1''" "client_description 1 = ''Client repository for Team 1''"
      "designer_repo_name 1 = ''Designer1''" "designer_description 1 = ''Designer repository for Team 1''"
    by code_simp+
  from a have roster: "map_of teams 1 = Some [''alice'', ''bob'']"
    by simp
  let ?s1 = "print (Processing_team 1 (length [''alice'', ''bob''])) s"
  obtain client where "create_repo org (calls ?s1) (client_repo_name 1) (client_description 1) True True
      = Inr client"
    using a by blast
  then have c: "create_repository org ?s1 (client_repo_name 1) (client_description 1) =
      (Inr (Some client), print (Created_repository (client_repo_name 1))
         (called (Create_repo (client_repo_name 1) (client_description 1) True True) ?s1))"
    by (rule create_repository_created)
  let ?s2 = "print (Created_repository (client_repo_name 1))
         (called (Create_repo (client_repo_name 1) (client_description 1) True True) ?s1)"
  let ?s3 = "add_members org ?s2 client [''alice'', ''bob'']"
  obtain designer where "create_repo org (calls ?s3) (designer_repo_name 1) (designer_description 1) True True
      = Inr designer"
    using a by blast
  then have d: "create_repository org ?s3 (designer_repo_name 1) (designer_description 1) =
      (Inr (Some designer), print (Created_repository (designer_repo_name 1))
         (called (Create_repo (designer_repo_name 1) (designer_description 1) True True) ?s3))"
    by (rule create_repository_created)
  let ?s4 = "print (Created_repository (designer_repo_name 1))
         (called (Create_repo (designer_repo_name 1) (designer_description 1) True True) ?s3)"
  have one: "[1..1] = [1::int]"
    by (simp add: upto.simps)
  have "main_teams org teams s [1] = main_teams org teams (add_members org ?s4 designer [''alice'', ''bob'']) []"
    using roster c d by (rule main_teams_created)
  then have run: "main_create org 1 teams s = (None, add_members org ?s4 designer [''alice'', ''bob''])"
    by (simp add: main_create_def one del: add_members.simps)
  have log: "calls (add_members org ?s4 designer [''alice'', ''bob'']) =
        calls s @ [Create_repo ''Client1'' ''Client repository for Team 1'' True True,
                   Add_to_collaborators client ''alice'' ''push'',
                   Add_to_collaborators client ''bob'' ''push'',
                   Create_repo ''Designer1'' ''Designer repository for Team 1'' True True,
                   Add_to_collaborators designer ''alice'' ''push'',
                   Add_to_collaborators designer ''bob'' ''push'']"
    by (simp add: add_members_calls names del: add_members.simps)
  have "fst (main_create org 1 teams s) = None"
    by (simp only: run fst_conv)
  moreover have "\<exists>client designer. calls (snd (main_create org 1 teams s)) =
        calls s @ [Create_repo ''Client1'' ''Client repository for Team 1'' True True,
                   Add_to_collaborators client ''alice'' ''push'',
                   Add_to_collaborators client ''bob'' ''push'',
                   Create_repo ''Designer1'' ''Designer repository for Team 1'' True True,
                   Add_to_collaborators designer ''alice'' ''push'',
                   Add_to_collaborators designer ''bob'' ''push'']"
    using log by (simp only: run snd_conv) blast
  ultimately show "fst (main_create org 1 teams s) = None
   \<and> (\<exists>client designer. calls (snd (main_create org 1 teams s)) =
        calls s @ [Create_repo ''Client1'' ''Client repository for Team 1'' True True,
                   Add_to_collaborators client ''alice'' ''push'',
                   Add_to_collaborators client ''bob'' ''push'',
                   Create_repo ''Designer1'' ''Designer repository for Team 1'' True True,
                   Add_to_collaborators designer ''alice'' ''push'',
                   Add_to_collaborators designer ''bob'' ''push''])"
    by (rule conjI)
qed

theorem one_team_two_repositories_four_grants_witness:
  "map_of [(1::int, [''alice'', ''bob''])] 1 = Some [''alice'', ''bob'']
   \<and> (\<forall>h name description. \<exists>repo.
        create_repo (example_platform (\<lambda>name. None) (\<lambda>name. None)
          (\<lambda>user. if user = ''bob'' then Some \<lparr>status = 404, data = ''Not Found''\<rparr> else None)
          (\<lambda>user. Inr ''none'')) h name description True True = Inr repo)
   \<and> (\<exists>client designer. calls (snd (main_create (example_platform (\<lambda>name. None) (\<lambda>name. None)
          (\<lambda>user. if user = ''bob'' then Some \<lparr>status = 404, data = ''Not Found''\<rparr> else None)
          (\<lambda>user. Inr ''none'')) 1 [(1, [''alice'', ''bob''])] start)) =
        calls start @ [Create_repo ''Client1'' ''Client repository for Team 1'' True True,
                   Add_to_collaborators client ''alice'' ''push'',
                   Add_to_collaborators client ''bob'' ''push'',
                   Create_repo ''Designer1'' ''Designer repository for Team 1'' True True,
                   Add_to_collaborators designer ''alice'' ''push'',
                   Add_to_collaborators designer ''bob'' ''push''])"
proof -
  let ?org = "example_platform (\<lambda>name. None) (\<lambda>name. None)
          (\<lambda>user. if user = ''bob'' then Some \<lparr>status = 404, data = ''Not Found''\<rparr> else None)
          (\<lambda>user. Inr ''none'')"
  have a: "map_of [(1::int, [''alice'', ''bob''])] 1 = Some [''alice'', ''bob'']"
    by simp
  have b: "\<forall>h name description. \<exists>repo. create_repo ?org h name description True True = Inr repo"
    by (simp add: example_platform_def)
  from a b one_team_two_repositories_four_grants [of "[(1, [''alice'', ''bob''])]" ?org start]
  have c: "\<exists>client designer. calls (snd (main_create ?org 1 [(1, [''alice'', ''bob''])] start)) =
        calls start @ [Create_repo ''Client1'' ''Client repository for Team 1'' True True,
                   Add_to_collaborators client ''alice'' ''push'',
                   Add_to_collaborators client ''bob'' ''push'',
                   Create_repo ''Designer1'' ''Designer repository for Team 1'' True True,
                   Add_to_collaborators designer ''alice'' ''push'',
                   Add_to_collaborators designer ''bob'' ''push'']"
    by blast
  show ?thesis
    by (intro conjI a b c)
qed

text \<open>
  C7, as the code has it. A failed grant is reported and passed over in both scripts,
  but only the read grant tells a missing user apart. \<open>add_collaborator\<close> (push access)
  prints the same line for every failure, the exception interpolated, whether the
  status is 404 or not. \<open>grant_read_access\<close> prints a line of its own for status 404 and
  another one for every other status. Neither failure stops anything: the push loop
  calls the platform once for each member of the team, the read loop queries the
  permission of each user of the repository, the access run looks up every repository
  of the access list, and the team run, on a platform without creation conflicts, ends
  normally and attempts both repositories of each team of the roster, whatever the
  grants answered.
\<close>

theorem member_failures_do_not_stop_the_run:
  "(add_to_collaborators org (calls s) repo user permission = Inl e \<longrightarrow>
      add_collaborator org s repo user permission =
        (False, print (Error_adding user e) (called (Add_to_collaborators repo user permission) s)))
   \<and> ((\<forall>p. get_collaborator_permission org (calls s) repo user = Inr p \<longrightarrow>
           p \<notin> {''admin'', ''write'', ''read''})
       \<and> add_to_collaborators org (calls s @ [Get_collaborator_permission repo user]) repo user ''pull''
           = Inl e \<longrightarrow>
      \<not> fst (grant_read_access org s repo user)
      \<and> printed (snd (grant_read_access org s repo user)) =
          printed s @ [if status e = 404 then User_not_found user else Error_granting user e])
   \<and> calls (add_members org s repo members) =
       calls s @ map (\<lambda>member. Add_to_collaborators repo member ''push'') members
   \<and> filter is_permission_query (calls (snd (grant_members org repo (n, s) users))) =
       filter is_permission_query (calls s) @ map (Get_collaborator_permission repo) users
   \<and> filter is_get_repo (calls (run (access_repos org st repo_access))) =
       filter is_get_repo (calls (run st)) @ map (\<lambda>item. Get_repo (fst item)) repo_access
   \<and> ((\<forall>h name description e. create_repo org h name description True True = Inl e \<longrightarrow> status e \<noteq> 422) \<longrightarrow>
      fst (main_teams org teams s nums) = None
      \<and> filter is_create_repo (calls (snd (main_teams org teams s nums))) =
          filter is_create_repo (calls s)
          @ concat (map (\<lambda>n. [Create_repo (client_repo_name n) (client_description n) True True,
                               Create_repo (designer_repo_name n) (designer_description n) True True])
              (filter (\<lambda>n. map_of teams n \<noteq> None) nums)))"
proof (intro conjI impI)
  assume "add_to_collaborators org (calls s) repo user permission = Inl e"
  then show "add_collaborator org s repo user permission =
        (False, print (Error_adding user e) (called (Add_to_collaborators repo user permission) s))"
    by (simp add: add_collaborator_def Let_def)
next
  assume a: "(\<forall>p. get_collaborator_permission org (calls s) repo user = Inr p \<longrightarrow>
           p \<notin> {''admin'', ''write'', ''read''})
       \<and> add_to_collaborators org (calls s @ [Get_collaborator_permission repo user]) repo user ''pull''
           = Inl e"
  then have g: "grant_read_access org s repo user =
      add_read_collaborator org (called (Get_collaborator_permission repo user) s) repo user"
    by (auto simp: grant_read_access_def Let_def split: sum.splits)
  from a show "\<not> fst (grant_read_access org s repo user)"
    by (simp add: g add_read_collaborator_def Let_def)
  from a show "printed (snd (grant_read_access org s repo user)) =
          printed s @ [if status e = 404 then User_not_found user else Error_granting user e]"
    by (simp add: g add_read_collaborator_def Let_def)
next
  show "calls (add_members org s repo members) =
       calls s @ map (\<lambda>member. Add_to_collaborators repo member ''push'') members"
    by (rule add_members_calls)
next
  show "filter is_permission_query (calls (snd (grant_members org repo (n, s) users))) =
       filter is_permission_query (calls s) @ map (Get_collaborator_permission repo) users"
    using grant_members_queries [of org repo "(n, s)" users] by simp
next
  show "filter is_get_repo (calls (run (access_repos org st repo_access))) =
       filter is_get_repo (calls (run st)) @ map (\<lambda>item. Get_repo (fst item)) repo_access"
    by (rule access_repos_fetches)
next
  assume ok: "\<forall>h name description e. create_repo org h name description True True = Inl e \<longrightarrow> status e \<noteq> 422"
  show "fst (main_teams org teams s nums) = None"
    using main_teams_creates [OF ok] by blast
  show "filter is_create_repo (calls (snd (main_teams org teams s nums))) =
          filter is_create_repo (calls s)
          @ concat (map (\<lambda>n. [Create_repo (client_repo_name n) (client_description n) True True,
                               Create_repo (designer_repo_name n) (designer_description n) True True])
              (filter (\<lambda>n. map_of teams n \<noteq> None) nums))"
    using main_teams_creates [OF ok] by blast
qed

theorem member_failures_do_not_stop_the_run_witness:
  "add_to_collaborators (example_platform (\<lambda>name. None) (\<lambda>name. None)
       (\<lambda>user. if user = ''bob'' then Some \<lparr>status = 404, data = ''Not Found''\<rparr> else None)
       (\<lambda>user. Inr ''none'')) (calls start) ''Client1'' ''bob'' ''push''
     = Inl \<lparr>status = 404, data = ''Not Found''\<rparr>
   \<and> add_collaborator (example_platform (\<lambda>name. None) (\<lambda>name. None)
       (\<lambda>user. if user = ''bob'' then Some \<lparr>status = 404, data = ''Not Found''\<rparr> else None)
       (\<lambda>user. Inr ''none'')) start ''Client1'' ''bob'' ''push''
     = (False, print (Error_adding ''bob'' \<lparr>status = 404, data = ''Not Found''\<rparr>)
                 (called (Add_to_collaborators ''Client1'' ''bob'' ''push'') start))
   \<and> printed (snd (grant_read_access (example_platform (\<lambda>name. None) (\<lambda>name. None)
       (\<lambda>user. if user = ''bob'' then Some \<lparr>status = 404, data = ''Not Found''\<rparr> else None)
       (\<lambda>user. Inr ''none'')) start ''Client1'' ''bob''))
     = [User_not_found ''bob'']
   \<and> fst (main_teams (example_platform (\<lambda>name. None) (\<lambda>name. None)
       (\<lambda>user. if user = ''bob'' then Some \<lparr>status = 404, data = ''Not Found''\<rparr> else None)
       (\<lambda>user. Inr ''none'')) [(1, [''alice'', ''bob''])] start [1]) = None"
proof -
  let ?org = "example_platform (\<lambda>name. None) (\<lambda>name. None)
       (\<lambda>user. if user = ''bob'' then Some \<lparr>status = 404, data = ''Not Found''\<rparr> else None)
       (\<lambda>user. Inr ''none'')"
  have a: "add_to_collaborators ?org (calls start) ''Client1'' ''bob'' ''push''
     = Inl \<lparr>status = 404, data = ''Not Found''\<rparr>"
    by (simp add: example_platform_def)
  have b: "\<forall>p. get_collaborator_permission ?org (calls start) ''Client1'' ''bob'' = Inr p \<longrightarrow>
           p \<notin> {''admin'', ''write'', ''read''}"
    by (simp add: example_platform_def)
  have c: "add_to_collaborators ?org (calls start @ [Get_collaborator_permission ''Client1'' ''bob''])
      ''Client1'' ''bob'' ''pull'' = Inl \<lparr>status = 404, data = ''Not Found''\<rparr>"
    by (simp add: example_platform_def)
  have d: "\<forall>h name description e. create_repo ?org h name description True True = Inl e \<longrightarrow> status e \<noteq> 422"
    by (simp add: example_platform_def)
  note push = member_failures_do_not_stop_the_run
      [of ?org start "''Client1''" "''bob''" "''push''" "\<lparr>status = 404, data = ''Not Found''\<rparr>"
          "[''alice'', ''bob'']" 0 "[''alice'', ''bob'']"
          "\<lparr>run = start, successful_repos = 0, failed_repos = []\<rparr>" "[]"
          "[(1, [''alice'', ''bob''])]" "[1]"]
  from a push have e: "add_collaborator ?org start ''Client1'' ''bob'' ''push''
     = (False, print (Error_adding ''bob'' \<lparr>status = 404, data = ''Not Found''\<rparr>)
                 (called (Add_to_collaborators ''Client1'' ''bob'' ''push'') start))"
    by blast
  have bc: "(\<forall>p. get_collaborator_permission ?org (calls start) ''Client1'' ''bob'' = Inr p \<longrightarrow>
           p \<notin> {''admin'', ''write'', ''read''})
      \<and> add_to_collaborators ?org (calls start @ [Get_collaborator_permission ''Client1'' ''bob''])
          ''Client1'' ''bob'' ''pull'' = Inl \<lparr>status = 404, data = ''Not Found''\<rparr>"
    by (intro conjI b c)
  have "printed (snd (grant_read_access ?org start ''Client1'' ''bob'')) =
      printed (start :: string run) @ [if status \<lparr>status = 404, data = ''Not Found''\<rparr> = 404 then User_not_found ''bob''
                       else Error_granting ''bob'' \<lparr>status = 404, data = ''Not Found''\<rparr>]"
    by (rule push [THEN conjunct2, THEN conjunct1, THEN mp, OF bc, THEN conjunct2])
  then have f: "printed (snd (grant_read_access ?org start ''Client1'' ''bob''))
     = [User_not_found ''bob'']"
    by (simp add: start_def)
  from d push have g: "fst (main_teams ?org [(1, [''alice'', ''bob''])] start [1]) = None"
    by blast
  show ?thesis
    by (intro conjI a e f g)
qed

text \<open>
  C7 as the claim states it fails for the push grant: on a platform that answers 404
  (no such user) for bob and on one that answers 500, \<open>add_collaborator\<close> prints the
  same line, the one for any failure, with nothing but the interpolated exception to
  tell the two apart; the read grant prints its not-found line in the first case.
\<close>

theorem push_grant_has_one_failure_line:
  "printed (snd (add_collaborator (example_platform (\<lambda>name. None) (\<lambda>name. None)
       (\<lambda>user. Some \<lparr>status = 404, data = ''Not Found''\<rparr>) (\<lambda>user. Inr ''none''))
       start ''Client1'' ''bob'' ''push''))
     = [Error_adding ''bob'' \<lparr>status = 404, data = ''Not Found''\<rparr>]
   \<and> printed (snd (add_collaborator (example_platform (\<lambda>name. None) (\<lambda>name. None)
       (\<lambda>user. Some \<lparr>status = 500, data = ''Server Error''\<rparr>) (\<lambda>user. Inr ''none''))
       start ''Client1'' ''bob'' ''push''))
     = [Error_adding ''bob'' \<lparr>status = 500, data = ''Server Error''\<rparr>]
   \<and> printed (snd (grant_read_access (example_platform (\<lambda>name. None) (\<lambda>name. None)
       (\<lambda>user. Some \<lparr>status = 404, data = ''Not Found''\<rparr>) (\<lambda>user. Inr ''none''))
       start ''Client1'' ''bob''))
     = [User_not_found ''bob'']"
  by (simp add: add_collaborator_def grant_read_access_def add_read_collaborator_def
      example_platform_def start_def called_def print_def)

text \<open>
  C9, as the code has it. The summary that ends the access run prints three figures and
  a list: the number of repositories in the access list, the number that fully
  succeeded, the number that failed, and the names of those that failed. A repository
  has failed when it could not be fetched; then no grant is attempted for it. A
  repository that was fetched counts as fully succeeded exactly when every one of its
  grants returned success; otherwise the run prints a line for it with the number of
  grants that succeeded, and the repository is counted neither as succeeded nor as
  failed. The repositories with such partial failures are therefore the ones the
  summary does not show: their number is the first figure less the other two.
\<close>

theorem access_run_summary:
  "(\<exists>before. printed (run (main_access org repo_access s)) =
      before @ [Summary_total (length repo_access),
                Summary_successful (successful_repos (main_access org repo_access s)),
                Summary_failed (length (failed_repos (main_access org repo_access s)))]
        @ (if failed_repos (main_access org repo_access s) = [] then []
           else Failed_repositories # map Failed_repository (failed_repos (main_access org repo_access s))))
   \<and> length repo_access + length (filter is_granted_some (printed s)) =
       successful_repos (main_access org repo_access s)
       + length (failed_repos (main_access org repo_access s))
       + length (filter is_granted_some (printed (run (main_access org repo_access s))))
   \<and> (get_repo org (calls (run st)) repo_name = Inl e \<longrightarrow>
        successful_repos (access_repo_step org st (repo_name, users)) = successful_repos st
        \<and> failed_repos (access_repo_step org st (repo_name, users)) = failed_repos st @ [repo_name]
        \<and> calls (run (access_repo_step org st (repo_name, users))) = calls (run st) @ [Get_repo repo_name])
   \<and> (get_repo org (calls (run st)) repo_name = Inr repo \<longrightarrow>
        failed_repos (access_repo_step org st (repo_name, users)) = failed_repos st
        \<and> successful_repos (access_repo_step org st (repo_name, users)) =
            successful_repos st
            + (if \<forall>ok \<in> set (grant_results org repo
                     (print Repository_found (called (Get_repo repo_name)
                        (print (Processing_repository repo_name) (run st)))) users). ok
               then 1 else 0)
        \<and> (\<exists>before. printed (run (access_repo_step org st (repo_name, users))) =
              before @ [if \<forall>ok \<in> set (grant_results org repo
                     (print Repository_found (called (Get_repo repo_name)
                        (print (Processing_repository repo_name) (run st)))) users). ok
                        then Granted_all (length users)
                        else Granted_some
                          (length (filter (\<lambda>ok. ok) (grant_results org repo
                             (print Repository_found (called (Get_repo repo_name)
                                (print (Processing_repository repo_name) (run st)))) users)))
                          (length users)]))"
proof (intro conjI impI)
  let ?st = "access_repos org \<lparr>run = s, successful_repos = 0, failed_repos = []\<rparr> repo_access"
  have final: "main_access org repo_access s =
      ?st\<lparr>run := (run ?st)\<lparr>printed := printed (run ?st) @ summary (length repo_access) ?st\<rparr>\<rparr>"
    by (simp add: main_access_def Let_def)
  show "\<exists>before. printed (run (main_access org repo_access s)) =
      before @ [Summary_total (length repo_access),
                Summary_successful (successful_repos (main_access org repo_access s)),
                Summary_failed (length (failed_repos (main_access org repo_access s)))]
        @ (if failed_repos (main_access org repo_access s) = [] then []
           else Failed_repositories # map Failed_repository (failed_repos (main_access org repo_access s)))"
    by (simp add: final summary_def)
  have "filter is_granted_some (summary (length repo_access) ?st) = []"
    by (simp add: summary_def filter_map o_def)
  then show "length repo_access + length (filter is_granted_some (printed s)) =
       successful_repos (main_access org repo_access s)
       + length (failed_repos (main_access org repo_access s))
       + length (filter is_granted_some (printed (run (main_access org repo_access s))))"
    using access_repos_accounting [of repo_access "\<lparr>run = s, successful_repos = 0, failed_repos = []\<rparr>" org]
    by (simp add: final)
next
  assume a: "get_repo org (calls (run st)) repo_name = Inl e"
  show "successful_repos (access_repo_step org st (repo_name, users)) = successful_repos st"
    by (simp add: access_repo_step_missing [OF a])
  show "failed_repos (access_repo_step org st (repo_name, users)) = failed_repos st @ [repo_name]"
    by (simp add: access_repo_step_missing [OF a])
  show "calls (run (access_repo_step org st (repo_name, users))) = calls (run st) @ [Get_repo repo_name]"
    by (simp add: access_repo_step_missing [OF a])
next
  assume a: "get_repo org (calls (run st)) repo_name = Inr repo"
  let ?oks = "grant_results org repo
                     (print Repository_found (called (Get_repo repo_name)
                        (print (Processing_repository repo_name) (run st)))) users"
  obtain s3 where step: "access_repo_step org st (repo_name, users) =
     (if \<forall>ok \<in> set ?oks. ok
      then st\<lparr>run := print (Granted_all (length users)) s3,
              successful_repos := successful_repos st + 1\<rparr>
      else st\<lparr>run := print (Granted_some (length (filter (\<lambda>ok. ok) ?oks)) (length users)) s3\<rparr>)"
    using access_repo_step_found [OF a, of users] by blast
  show "failed_repos (access_repo_step org st (repo_name, users)) = failed_repos st"
    by (simp add: step)
  show "successful_repos (access_repo_step org st (repo_name, users)) =
            successful_repos st + (if \<forall>ok \<in> set ?oks. ok then 1 else 0)"
    by (simp add: step)
  show "\<exists>before. printed (run (access_repo_step org st (repo_name, users))) =
              before @ [if \<forall>ok \<in> set ?oks. ok then Granted_all (length users)
                        else Granted_some (length (filter (\<lambda>ok. ok) ?oks)) (length users)]"
    by (simp add: step)
qed

theorem access_run_summary_witness:
  "get_repo (example_platform (\<lambda>name. None)
       (\<lambda>name. if name = ''X'' then Some \<lparr>status = 404, data = ''Not Found''\<rparr> else None)
       (\<lambda>user. if user = ''bob'' then Some \<lparr>status = 404, data = ''Not Found''\<rparr> else None)
       (\<lambda>user. Inr ''none''))
       (calls (run \<lparr>run = start, successful_repos = 0, failed_repos = []\<rparr>)) ''X''
     = Inl \<lparr>status = 404, data = ''Not Found''\<rparr>
   \<and> failed_repos (access_repo_step (example_platform (\<lambda>name. None)
       (\<lambda>name. if name = ''X'' then Some \<lparr>status = 404, data = ''Not Found''\<rparr> else None)
       (\<lambda>user. if user = ''bob'' then Some \<lparr>status = 404, data = ''Not Found''\<rparr> else None)
       (\<lambda>user. Inr ''none''))
       \<lparr>run = start, successful_repos = 0, failed_repos = []\<rparr> (''X'', [''alice'']))
     = [''X'']
   \<and> get_repo (example_platform (\<lambda>name. None)
       (\<lambda>name. if name = ''X'' then Some \<lparr>status = 404, data = ''Not Found''\<rparr> else None)
       (\<lambda>user. if user = ''bob'' then Some \<lparr>status = 404, data = ''Not Found''\<rparr> else None)
       (\<lambda>user. Inr ''none''))
       (calls (run \<lparr>run = start, successful_repos = 0, failed_repos = []\<rparr>)) ''Y''
     = Inr ''Y''
   \<and> failed_repos (access_repo_step (example_platform (\<lambda>name. None)
       (\<lambda>name. if name = ''X'' then Some \<lparr>status = 404, data = ''Not Found''\<rparr> else None)
       (\<lambda>user. if user = ''bob'' then Some \<lparr>status = 404, data = ''Not Found''\<rparr> else None)
       (\<lambda>user. Inr ''none''))
       \<lparr>run = start, successful_repos = 0, failed_repos = []\<rparr> (''Y'', [''alice'', ''bob'']))
     = []"
proof -
  let ?org = "example_platform (\<lambda>name. None)
       (\<lambda>name. if name = ''X'' then Some \<lparr>status = 404, data = ''Not Found''\<rparr> else None)
       (\<lambda>user. if user = ''bob'' then Some \<lparr>status = 404, data = ''Not Found''\<rparr> else None)
       (\<lambda>user. Inr ''none'')"
  let ?st = "\<lparr>run = start, successful_repos = 0, failed_repos = []\<rparr> :: string access_state"
  have a: "get_repo ?org (calls (run ?st)) ''X'' = Inl \<lparr>status = 404, data = ''Not Found''\<rparr>"
    by (simp add: example_platform_def)
  have b: "get_repo ?org (calls (run ?st)) ''Y'' = Inr ''Y''"
    by (simp add: example_platform_def)
  from a access_run_summary [of ?org "[]" start ?st "''X''" "\<lparr>status = 404, data = ''Not Found''\<rparr>" "[''alice'']" "''Y''"]
  have c: "failed_repos (access_repo_step ?org ?st (''X'', [''alice''])) = failed_repos ?st @ [''X'']"
    by blast
  from b access_run_summary [of ?org "[]" start ?st "''Y''" "\<lparr>status = 404, data = ''Not Found''\<rparr>" "[''alice'', ''bob'']" "''Y''"]
  have d: "failed_repos (access_repo_step ?org ?st (''Y'', [''alice'', ''bob''])) = failed_repos ?st"
    by blast
  from c have c': "failed_repos (access_repo_step ?org ?st (''X'', [''alice''])) = [''X'']"
    by simp
  from d have d': "failed_repos (access_repo_step ?org ?st (''Y'', [''alice'', ''bob''])) = []"
    by simp
  show ?thesis
    by (intro conjI a b c' d')
qed

text \<open>
  C9 as the claim states it fails on the third figure. In a run over three repositories
  of which one cannot be fetched and two are fetched but have a failing grant, the
  summary shows 3 repositories, 0 successful and 1 failed, and names the one that could
  not be fetched; two repositories had partial member failures, and no figure of the
  summary counts them.
\<close>

theorem summary_does_not_count_partial_failures:
  "summary 3 (main_access (example_platform (\<lambda>name. None)
       (\<lambda>name. if name = ''X'' then Some \<lparr>status = 404, data = ''Not Found''\<rparr> else None)
       (\<lambda>user. if user = ''bob'' then Some \<lparr>status = 404, data = ''Not Found''\<rparr> else None)
       (\<lambda>user. Inr ''none''))
       [(''X'', [''alice'']), (''Y'', [''alice'', ''bob'']), (''Z'', [''bob''])] start)
     = [Summary_total 3, Summary_successful 0, Summary_failed 1,
        Failed_repositories, Failed_repository ''X'']
   \<and> filter is_granted_some (printed (run (main_access (example_platform (\<lambda>name. None)
       (\<lambda>name. if name = ''X'' then Some \<lparr>status = 404, data = ''Not Found''\<rparr> else None)
       (\<lambda>user. if user = ''bob'' then Some \<lparr>status = 404, data = ''Not Found''\<rparr> else None)
       (\<lambda>user. Inr ''none''))
       [(''X'', [''alice'']), (''Y'', [''alice'', ''bob'']), (''Z'', [''bob''])] start)))
     = [Granted_some 1 2, Granted_some 0 1]"
  by (simp add: main_access_def access_repo_step_def grant_read_access_def add_read_collaborator_def
      example_platform_def start_def called_def print_def summary_def Let_def)

end
